theory Spec2Isabelle
  imports Main "HOL-Library.Char_ord"
begin

section \<open>Strings of the JavaScript runtime\<close>

text \<open>
  The extraction pipeline of the repository is string processing over the scraped page.
  A JavaScript string is modelled as a \<open>string\<close>; a \<open>char\<close> stands for one code unit in
  the range U+0000 to U+00FF.  The functions of this section are the runtime's string
  methods that the pipeline calls.
\<close>

fun startsWith :: "string \<Rightarrow> string \<Rightarrow> bool" where
  "startsWith s [] = True"
| "startsWith [] (n # ns) = False"
| "startsWith (c # cs) (n # ns) = (c = n \<and> startsWith cs ns)"

text \<open>\<open>s.includes(n)\<close>: the needle occurs in \<open>s\<close> as a contiguous run of characters.\<close>

fun str_includes :: "string \<Rightarrow> string \<Rightarrow> bool" where
  "str_includes [] n = (n = [])"
| "str_includes (c # cs) n = (startsWith (c # cs) n \<or> str_includes cs n)"

text \<open>
  \<open>toLowerCase\<close>, one code unit at a time: the letters A to Z and the Latin-1 capitals
  U+00C0 to U+00DE (U+00D7, the multiplication sign, apart) move up by 32, which sets
  the bit of that value.
\<close>

definition lowerChar :: "char \<Rightarrow> char" where
  "lowerChar c =
     (if (CHR ''A'' \<le> c \<and> c \<le> CHR ''Z'')
         \<or> (CHR 0xC0 \<le> c \<and> c \<le> CHR 0xDE \<and> c \<noteq> CHR 0xD7)
      then (case c of Char b0 b1 b2 b3 b4 b5 b6 b7 \<Rightarrow> Char b0 b1 b2 b3 b4 True b6 b7)
      else c)"

definition toLowerCase :: "string \<Rightarrow> string" where
  "toLowerCase s = map lowerChar s"

text \<open>White space (\<open>\s\<close> of a regular expression, and what \<open>trim\<close> removes): tab, line
  feed, vertical tab, form feed, carriage return, space and the no-break space.\<close>

definition isSpace :: "char \<Rightarrow> bool" where
  "isSpace c =
     (c \<in> set [CHR 0x09, CHR 0x0A, CHR 0x0B, CHR 0x0C, CHR 0x0D, CHR 0x20, CHR 0xA0])"

text \<open>The dot of a regular expression matches everything but a line terminator.\<close>

definition isDotChar :: "char \<Rightarrow> bool" where
  "isDotChar c = (c \<noteq> CHR 0x0A \<and> c \<noteq> CHR 0x0D)"

definition isDigit :: "char \<Rightarrow> bool" where
  "isDigit c = (CHR ''0'' \<le> c \<and> c \<le> CHR ''9'')"

definition isAlpha :: "char \<Rightarrow> bool" where
  "isAlpha c = ((CHR ''A'' \<le> c \<and> c \<le> CHR ''Z'') \<or> (CHR ''a'' \<le> c \<and> c \<le> CHR ''z''))"

definition trim :: "string \<Rightarrow> string" where
  "trim s = rev (dropWhile isSpace (rev (dropWhile isSpace s)))"

text \<open>\<open>parts.join(sep)\<close> on an array of strings.\<close>

fun join :: "string \<Rightarrow> string list \<Rightarrow> string" where
  "join sep [] = []"
| "join sep [x] = x"
| "join sep (x # y # ys) = x @ sep @ join sep (y # ys)"

text \<open>\<open>s.split(/[,;]/)\<close>: cut at every character of the class; an empty input gives one
  empty piece.\<close>

fun splitOn :: "(char \<Rightarrow> bool) \<Rightarrow> string \<Rightarrow> string list" where
  "splitOn p [] = [[]]"
| "splitOn p (c # cs) =
     (if p c then [] # splitOn p cs
      else (case splitOn p cs of [] \<Rightarrow> [[c]] | w # ws \<Rightarrow> (c # w) # ws))"

text \<open>
  \<open>[...new Set(xs)]\<close>: the values are inserted from left to right, and a value that is
  already in the set is skipped, so every value stays where it first occurred.
\<close>

definition setInsert :: "'a \<Rightarrow> 'a list \<Rightarrow> 'a list" where
  "setInsert x acc = (if x \<in> set acc then acc else acc @ [x])"

definition uniq :: "'a list \<Rightarrow> 'a list" where
  "uniq xs = fold setInsert xs []"

text \<open>The decimal digits of an index, as in the key of an array element.\<close>

fun natDigits :: "nat \<Rightarrow> string" where
  "natDigits n =
     (if n < 10 then [char_of (48 + n)]
      else natDigits (n div 10) @ [char_of (48 + n mod 10)])"

section \<open>Regular expressions\<close>

text \<open>
  The patterns of the repository are built from character classes with a greedy count,
  sequences, alternatives, optional groups and the end of input.  A backtracking matcher
  tries the alternatives of a pattern in a fixed order of preference; \<open>rests r s\<close> lists,
  in that order, what is left of \<open>s\<close> after each way of matching \<open>r\<close> at its start.  The
  match the runtime reports is the first of the list.
\<close>

datatype regex =
    Cls "char \<Rightarrow> bool" nat "nat option"
  | Seq regex regex
  | Alt regex regex
  | Opt regex
  | Eps
  | Eoi

fun rests :: "regex \<Rightarrow> string \<Rightarrow> string list" where
  "rests (Cls p lo hi) s =
     (let n = length (takeWhile p s);
          m = (case hi of None \<Rightarrow> n | Some h \<Rightarrow> min h n)
      in map (\<lambda>k. drop k s) (rev [lo ..< Suc m]))"
| "rests (Seq a b) s = concat (map (rests b) (rests a s))"
| "rests (Alt a b) s = rests a s @ rests b s"
| "rests (Opt a) s = rests a s @ [s]"
| "rests Eps s = [s]"
| "rests Eoi s = (if s = [] then [s] else [])"

definition seqs :: "regex list \<Rightarrow> regex" where
  "seqs rs = foldr Seq rs Eps"

definition alts :: "regex list \<Rightarrow> regex" where
  "alts rs = (case rs of [] \<Rightarrow> Eps | _ \<Rightarrow> foldr Alt (butlast rs) (last rs))"

definition chr :: "char \<Rightarrow> regex" where
  "chr c = Cls (\<lambda>x. x = c) 1 (Some 1)"

text \<open>A literal under the flag \<open>i\<close>: each character matches in either case.\<close>

definition lit_ci :: "string \<Rightarrow> regex" where
  "lit_ci w = seqs (map (\<lambda>c. Cls (\<lambda>x. lowerChar x = lowerChar c) 1 (Some 1)) w)"

text \<open>The match at the start of \<open>s\<close>, if there is one: the matched text and the rest.\<close>

definition matchAt :: "regex \<Rightarrow> string \<Rightarrow> (string \<times> string) option" where
  "matchAt r s =
     (case rests r s of [] \<Rightarrow> None | t # _ \<Rightarrow> Some (take (length s - length t) s, t))"

text \<open>The leftmost match: the text before it, the match and the text after it.\<close>

fun search :: "regex \<Rightarrow> string \<Rightarrow> (string \<times> string \<times> string) option" where
  "search r [] = (case matchAt r [] of None \<Rightarrow> None | Some (m, t) \<Rightarrow> Some ([], m, t))"
| "search r (c # cs) =
     (case matchAt r (c # cs) of
        Some (m, t) \<Rightarrow> Some ([], m, t)
      | None \<Rightarrow> (case search r cs of None \<Rightarrow> None | Some (b, m, t) \<Rightarrow> Some (c # b, m, t)))"

text \<open>\<open>s.replace(r, '')\<close> for a pattern without the flag \<open>g\<close>: the leftmost match is cut out.\<close>

definition removeFirst :: "regex \<Rightarrow> string \<Rightarrow> string" where
  "removeFirst r s = (case search r s of None \<Rightarrow> s | Some (b, m, t) \<Rightarrow> b @ t)"

text \<open>
  \<open>s.match(r)\<close> for a pattern with the flag \<open>g\<close>: all matches from left to right, each
  search starting where the last match ended (one character further after an empty
  match).  The counter is the number of characters still covered by the last match.
\<close>

fun matchAll :: "regex \<Rightarrow> nat \<Rightarrow> string \<Rightarrow> string list" where
  "matchAll r k [] =
     (if k = 0 then (case matchAt r [] of None \<Rightarrow> [] | Some (m, t) \<Rightarrow> [m]) else [])"
| "matchAll r k (c # cs) =
     (if 0 < k then matchAll r (k - 1) cs
      else (case matchAt r (c # cs) of
              None \<Rightarrow> matchAll r 0 cs
            | Some (m, t) \<Rightarrow> m # matchAll r (length m - 1) cs))"

text \<open>
  \<open>s.match(r)[1]\<close> for a pattern \<open>pre(grp)\<close> whose only group is its last part: the text
  of the group in the leftmost match.
\<close>

definition groupsAt :: "regex \<Rightarrow> regex \<Rightarrow> string \<Rightarrow> string list" where
  "groupsAt pre grp s =
     concat (map (\<lambda>r1. map (\<lambda>r2. take (length r1 - length r2) r1) (rests grp r1)) (rests pre s))"

fun firstGroup :: "regex \<Rightarrow> regex \<Rightarrow> string \<Rightarrow> string option" where
  "firstGroup pre grp [] = (case groupsAt pre grp [] of [] \<Rightarrow> None | g # _ \<Rightarrow> Some g)"
| "firstGroup pre grp (c # cs) =
     (case groupsAt pre grp (c # cs) of [] \<Rightarrow> firstGroup pre grp cs | g # _ \<Rightarrow> Some g)"

section \<open>Values of structured data\<close>

text \<open>
  A structured-data record is whatever \<open>JSON.parse\<close> returned for a script of the page:
  any JSON value.  The program observes of a number only whether it is zero and what
  \<open>String\<close> prints for it, and two numbers are the same value exactly when they print
  alike, so a number is given by the string that JavaScript prints for it (\<open>0\<close> for
  zero).  An object is the list of its own keys with their values, each key once, in an
  order that the program never observes.  A value that may be \<open>undefined\<close> is a
  \<open>json option\<close>.
\<close>

datatype json =
    JNull
  | JBool bool
  | JNum string
  | JStr string
  | JArr "json list"
  | JObj "(string \<times> json) list"

text \<open>
  \<open>TypeError\<close> is the exception the runtime throws on reading a property of \<open>null\<close> or
  \<open>undefined\<close>, on calling what is not a function, on spreading what is not iterable and
  on converting an object without a usable \<open>toString\<close> to a string.  It is the only
  exception of the pipeline.
\<close>

datatype error = TypeError

definition bindE :: "error + 'a \<Rightarrow> ('a \<Rightarrow> error + 'b) \<Rightarrow> error + 'b" where
  "bindE m f = (case m of Inl e \<Rightarrow> Inl e | Inr x \<Rightarrow> f x)"

text \<open>\<open>xs.forEach\<close> with a body that updates a state and may throw.\<close>

fun forEachE :: "('s \<Rightarrow> 'a \<Rightarrow> error + 's) \<Rightarrow> 's \<Rightarrow> 'a list \<Rightarrow> error + 's" where
  "forEachE f s [] = Inr s"
| "forEachE f s (x # xs) = (case f s x of Inl e \<Rightarrow> Inl e | Inr s' \<Rightarrow> forEachE f s' xs)"

fun mapE :: "('a \<Rightarrow> error + 'b) \<Rightarrow> 'a list \<Rightarrow> error + 'b list" where
  "mapE f [] = Inr []"
| "mapE f (x # xs) =
     (case f x of Inl e \<Rightarrow> Inl e
      | Inr y \<Rightarrow> (case mapE f xs of Inl e \<Rightarrow> Inl e | Inr ys \<Rightarrow> Inr (y # ys)))"

text \<open>What a condition, \<open>||\<close> and \<open>filter(Boolean)\<close> take for true.\<close>

fun truthy :: "json \<Rightarrow> bool" where
  "truthy JNull = False"
| "truthy (JBool b) = b"
| "truthy (JNum n) = (n \<noteq> ''0'')"
| "truthy (JStr s) = (s \<noteq> [])"
| "truthy (JArr xs) = True"
| "truthy (JObj kvs) = True"

fun truthyOpt :: "json option \<Rightarrow> bool" where
  "truthyOpt None = False"
| "truthyOpt (Some v) = truthy v"

text \<open>
  Reading a property with one of the names the extractor uses (none of them is a
  built-in property of strings, numbers, booleans or arrays): \<open>field\<close> for a receiver that
  is known to be neither \<open>null\<close> nor \<open>undefined\<close>, \<open>getField\<close> for \<open>x.k\<close> on any receiver,
  \<open>optField\<close> for \<open>x?.k\<close>.
\<close>

fun field :: "json \<Rightarrow> string \<Rightarrow> json option" where
  "field (JObj kvs) k = map_of kvs k"
| "field v k = None"

fun getField :: "json option \<Rightarrow> string \<Rightarrow> error + json option" where
  "getField None k = Inl TypeError"
| "getField (Some JNull) k = Inl TypeError"
| "getField (Some v) k = Inr (field v k)"

fun optField :: "json option \<Rightarrow> string \<Rightarrow> json option" where
  "optField None k = None"
| "optField (Some JNull) k = None"
| "optField (Some v) k = field v k"

text \<open>\<open>a || b\<close> on values.\<close>

definition orJson :: "json option \<Rightarrow> json \<Rightarrow> json" where
  "orJson a b = (case a of None \<Rightarrow> b | Some v \<Rightarrow> if truthy v then v else b)"

text \<open>
  The conversion of a value to a string, as a template literal and \<open>join\<close> do it.  An
  array is the join of its elements with a comma (\<open>null\<close> elements as the empty string);
  an object is \<open>[object Object]\<close>, unless it has a key \<open>toString\<close> of its own, which is
  not a function and makes the conversion throw.
\<close>

fun toStr :: "json \<Rightarrow> error + string" and joinElems :: "json list \<Rightarrow> error + string" where
  "toStr JNull = Inr ''null''"
| "toStr (JBool b) = Inr (if b then ''true'' else ''false'')"
| "toStr (JNum n) = Inr n"
| "toStr (JStr s) = Inr s"
| "toStr (JArr xs) = joinElems xs"
| "toStr (JObj kvs) =
     (if map_of kvs ''toString'' = None then Inr ''[object Object]'' else Inl TypeError)"
| "joinElems [] = Inr []"
| "joinElems (x # xs) =
     (case (if x = JNull then Inr [] else toStr x) of
        Inl e \<Rightarrow> Inl e
      | Inr a \<Rightarrow>
          (if xs = [] then Inr a
           else (case joinElems xs of Inl e \<Rightarrow> Inl e | Inr b \<Rightarrow> Inr (a @ '','' @ b))))"

text \<open>\<open>[...(x || [])]\<close>: the elements of an array, the characters of a string, nothing for a
  value that is not truthy; any other value is not iterable.\<close>

fun spreadOr :: "json option \<Rightarrow> error + json list" where
  "spreadOr (Some (JArr xs)) = Inr xs"
| "spreadOr (Some (JStr s)) = Inr (map (\<lambda>c. JStr [c]) s)"
| "spreadOr v = (if truthyOpt v then Inl TypeError else Inr [])"

section \<open>The profile\<close>

text \<open>
  A key of the contact object is missing, present with the value \<open>undefined\<close>, or present
  with a value: an object spread copies the keys that are present, whatever their value.
\<close>

datatype 'a slot = Missing | Undefined | Value 'a

datatype business_type = Catalog | Specialist | Ecosystem

text \<open>
  The interface \<open>ExtractedData\<close> declares the name, the tagline, the description, the
  email, the phone and the social media addresses as strings.  The structured-data
  extractor stores there whatever truthy value a record of the type \<open>any\<close> holds, and
  the program goes on with it, so these fields hold a value of any kind.  The services,
  the products, the team entries, the address, the mission and the API documentation
  note are strings in every run: the program only ever stores strings that it has built
  or tested itself there.
\<close>

record contact_info =
  email :: "json slot"
  phone :: "json slot"
  address :: "string slot"
  socialMedia :: "(string \<times> json) list slot"

text \<open>
  The same record stands for \<open>Partial<ExtractedData>\<close>, what one source contributes: a
  source without the key of an array or of the contact object contributes nothing for
  it, which is what an empty array and an empty object contribute to the merge as well,
  so the absent key is written as the empty value.
\<close>

record extracted_data =
  companyName :: "json option"
  tagline :: "json option"
  description :: "json option"
  services :: "string list"
  products :: "string list"
  contactInfo :: contact_info
  mission :: "string option"
  teamInfo :: "string list"
  apiDocs :: "string option"
  schemaData :: "json list option"
  businessType :: "business_type option"

record scraped_content =
  html :: string
  textContent :: string
  metaTags :: "string \<Rightarrow> string option"
  jsonLd :: "json list"
  finalUrl :: string

definition emptyContact :: contact_info where
  "emptyContact = \<lparr>email = Missing, phone = Missing, address = Missing, socialMedia = Missing\<rparr>"

text \<open>The object literal every extractor and the merge start from.\<close>

definition emptyData :: extracted_data where
  "emptyData =
     \<lparr>companyName = None, tagline = None, description = None, services = [], products = [],
      contactInfo = emptyContact, mission = None, teamInfo = [], apiDocs = None,
      schemaData = None, businessType = None\<rparr>"

section \<open>Constants\<close>

definition EXCLUDED_CONTENT :: "string list" where
  "EXCLUDED_CONTENT =
     [''pricing'', ''price'', ''cost'', ''fee'', ''payment'', ''credit card'', ''api key'',
      ''password'', ''secret'', ''private'', ''confidential'']"

definition KEYWORDS_catalog :: "string list" where
  "KEYWORDS_catalog =
     [''marketplace'', ''platform'', ''directory'', ''listing'', ''catalog'', ''database'']"

definition KEYWORDS_specialist :: "string list" where
  "KEYWORDS_specialist =
     [''agency'', ''consultant'', ''expert'', ''specialist'', ''professional'', ''service'']"

definition KEYWORDS_ecosystem :: "string list" where
  "KEYWORDS_ecosystem =
     [''suite'', ''ecosystem'', ''integrated'', ''all-in-one'', ''complete solution'']"

section \<open>Helper functions of the extractor\<close>

definition containsExcludedContent :: "string \<Rightarrow> bool" where
  "containsExcludedContent text =
     (let lowerText = toLowerCase text
      in list_ex (\<lambda>excluded. str_includes lowerText excluded) EXCLUDED_CONTENT)"

definition platforms :: "(string \<times> string) list" where
  "platforms =
     [(''facebook.com'', ''facebook''), (''twitter.com'', ''twitter''), (''x.com'', ''twitter''),
      (''linkedin.com'', ''linkedin''), (''instagram.com'', ''instagram''),
      (''youtube.com'', ''youtube''), (''github.com'', ''github'')]"

text \<open>The loop of \<open>identifySocialPlatform\<close> over the entries of the table, for a
  containment test \<open>has\<close>.\<close>

fun firstContained :: "(string \<Rightarrow> bool) \<Rightarrow> (string \<times> string) list \<Rightarrow> string option" where
  "firstContained has [] = None"
| "firstContained has ((domain, platform) # entries) =
     (if has domain then Some platform else firstContained has entries)"

definition identifySocialPlatform :: "string \<Rightarrow> string option" where
  "identifySocialPlatform url = firstContained (\<lambda>domain. str_includes url domain) platforms"

text \<open>
  The extractor calls \<open>identifySocialPlatform\<close> with the elements of \<open>sameAs\<close>, whatever they
  are: on an array \<open>url.includes\<close> is the membership test of arrays, on every other value
  that is not a string it is not a function.
\<close>

fun identifySocialPlatformAny :: "json \<Rightarrow> error + string option" where
  "identifySocialPlatformAny (JStr url) = Inr (identifySocialPlatform url)"
| "identifySocialPlatformAny (JArr xs) =
     Inr (firstContained (\<lambda>domain. JStr domain \<in> set xs) platforms)"
| "identifySocialPlatformAny v = Inl TypeError"

definition formatAddress :: "json option \<Rightarrow> error + string" where
  "formatAddress addr =
     bindE (mapE (getField addr)
        [''streetAddress'', ''addressLocality'', ''addressRegion'', ''postalCode'',
         ''addressCountry''])
      (\<lambda>vs. bindE (mapE toStr (filter truthy (List.map_filter (\<lambda>v. v) vs)))
        (\<lambda>parts. Inr (join '', '' parts)))"

text \<open>
  \<open>cleanCompanyName\<close> cuts out the leftmost match of \<^verbatim>\<open>/\s*[-|]\s*.*$/\<close>, then the
  leftmost match of \<^verbatim>\<open>/\s+(Inc|LLC|Ltd|Corporation|Corp)\.?$/i\<close>, and trims the result.
\<close>

definition RE_afterDash :: regex where
  "RE_afterDash =
     seqs [Cls isSpace 0 None, Cls (\<lambda>c. c = CHR ''-'' \<or> c = CHR ''|'') 1 (Some 1),
           Cls isSpace 0 None, Cls isDotChar 0 None, Eoi]"

definition RE_legalSuffix :: regex where
  "RE_legalSuffix =
     seqs [Cls isSpace 1 None,
           alts [lit_ci ''Inc'', lit_ci ''LLC'', lit_ci ''Ltd'', lit_ci ''Corporation'',
                 lit_ci ''Corp''],
           Cls (\<lambda>c. c = CHR ''.'') 0 (Some 1), Eoi]"

definition cleanCompanyName :: "string \<Rightarrow> string" where
  "cleanCompanyName name = trim (removeFirst RE_legalSuffix (removeFirst RE_afterDash name))"

section \<open>Extraction from structured data\<close>

text \<open>\<open>x || old\<close>: the new value when it is truthy, the old one otherwise.\<close>

definition orOld :: "json option \<Rightarrow> json option \<Rightarrow> json option" where
  "orOld new old = (case new of None \<Rightarrow> old | Some v \<Rightarrow> if truthy v then Some v else old)"

text \<open>The same inside an object literal: the key is present afterwards, with the value
  \<open>undefined\<close> when neither side has one.\<close>

definition slotOr :: "json option \<Rightarrow> json slot \<Rightarrow> json slot" where
  "slotOr new old =
     (let kept = (case old of Value v \<Rightarrow> Value v | _ \<Rightarrow> Undefined)
      in case new of None \<Rightarrow> kept | Some v \<Rightarrow> if truthy v then Value v else kept)"

text \<open>\<open>obj[key] = v\<close> on an object kept as the list of its entries.\<close>

fun setKey :: "string \<Rightarrow> 'v \<Rightarrow> (string \<times> 'v) list \<Rightarrow> (string \<times> 'v) list" where
  "setKey k v [] = [(k, v)]"
| "setKey k v ((k', v') # kvs) = (if k' = k then (k, v) # kvs else (k', v') # setKey k v kvs)"

definition addSocial :: "(string \<times> json) list \<Rightarrow> json \<Rightarrow> error + (string \<times> json) list" where
  "addSocial sm url =
     bindE (identifySocialPlatformAny url)
       (\<lambda>platform. case platform of None \<Rightarrow> Inr sm | Some p \<Rightarrow> Inr (setKey p url sm))"

definition contactPointBlock :: "extracted_data \<Rightarrow> json \<Rightarrow> error + extracted_data" where
  "contactPointBlock extracted j =
     (let cp = field j ''contactPoint''
      in if truthyOpt cp then
           (let contact =
                  (case cp of
                     Some (JArr xs) \<Rightarrow> (case xs of [] \<Rightarrow> None | x # _ \<Rightarrow> Some x)
                   | _ \<Rightarrow> cp)
            in bindE (getField contact ''email'') (\<lambda>em.
               bindE (getField contact ''telephone'') (\<lambda>ph.
               Inr (extracted\<lparr>contactInfo :=
                      (contactInfo extracted)
                        \<lparr>email := slotOr em (email (contactInfo extracted)),
                         phone := slotOr ph (phone (contactInfo extracted))\<rparr>\<rparr>))))
         else Inr extracted)"

definition addressBlock :: "extracted_data \<Rightarrow> json \<Rightarrow> error + extracted_data" where
  "addressBlock extracted j =
     (let addr = field j ''address''
      in if truthyOpt addr then
           bindE (formatAddress addr) (\<lambda>a.
             Inr (extracted\<lparr>contactInfo := (contactInfo extracted)\<lparr>address := Value a\<rparr>\<rparr>))
         else Inr extracted)"

definition sameAsBlock :: "extracted_data \<Rightarrow> json \<Rightarrow> error + extracted_data" where
  "sameAsBlock extracted j =
     (case field j ''sameAs'' of
        Some (JArr urls) \<Rightarrow>
          bindE (forEachE addSocial [] urls) (\<lambda>sm.
            Inr (extracted\<lparr>contactInfo := (contactInfo extracted)\<lparr>socialMedia := Value sm\<rparr>\<rparr>))
      | _ \<Rightarrow> Inr extracted)"

definition organizationBlock :: "extracted_data \<Rightarrow> json \<Rightarrow> error + extracted_data" where
  "organizationBlock extracted j =
     bindE (contactPointBlock
              (extracted
                 \<lparr>companyName := orOld (field j ''name'') (companyName extracted),
                  description := orOld (field j ''description'') (description extracted),
                  tagline := orOld (field j ''slogan'') (tagline extracted)\<rparr>) j)
       (\<lambda>e1.
     bindE (addressBlock e1 j) (\<lambda>e2. sameAsBlock e2 j))"

text \<open>The body of the loops over offers and catalogue entries:
  \<open>if (item?.name && !containsExcludedContent(item.name)) list.push(item.name)\<close>.\<close>

definition pushName :: "string list \<Rightarrow> json option \<Rightarrow> error + string list" where
  "pushName acc item =
     (case optField item ''name'' of
        Some (JStr s) \<Rightarrow>
          Inr (if s \<noteq> [] \<and> \<not> containsExcludedContent s then acc @ [s] else acc)
      | nm \<Rightarrow> if truthyOpt nm then Inl TypeError else Inr acc)"

definition productsBlock :: "extracted_data \<Rightarrow> json \<Rightarrow> json option \<Rightarrow> error + extracted_data" where
  "productsBlock extracted j typ =
     (if typ = Some (JStr ''Product'') \<or> truthyOpt (field j ''makesOffer'') then
        (let mo = field j ''makesOffer'';
             items = (case mo of Some (JArr xs) \<Rightarrow> map Some xs | _ \<Rightarrow> [mo])
         in bindE (forEachE pushName (products extracted) items) (\<lambda>ps.
              Inr (extracted\<lparr>products := ps\<rparr>)))
      else Inr extracted)"

definition servicesBlock :: "extracted_data \<Rightarrow> json \<Rightarrow> json option \<Rightarrow> error + extracted_data" where
  "servicesBlock extracted j typ =
     (if typ = Some (JStr ''Service'') \<or> truthyOpt (field j ''hasOfferCatalog'') then
        (let items = optField (field j ''hasOfferCatalog'') ''itemListElement''
         in if truthyOpt items then
              (case items of
                 Some (JArr xs) \<Rightarrow>
                   bindE (forEachE pushName (services extracted) (map Some xs)) (\<lambda>ss.
                     Inr (extracted\<lparr>services := ss\<rparr>))
               | _ \<Rightarrow> Inl TypeError)
            else Inr extracted)
      else Inr extracted)"

definition pushPerson :: "string list \<Rightarrow> json \<Rightarrow> error + string list" where
  "pushPerson acc person =
     (case optField (Some person) ''name'' of
        None \<Rightarrow> Inr acc
      | Some nm \<Rightarrow>
          if truthy nm then
            (let role = orJson (field person ''jobTitle'')
                          (orJson (field person ''role'') (JStr ''Team Member''))
             in bindE (toStr nm) (\<lambda>n. bindE (toStr role) (\<lambda>r. Inr (acc @ [n @ '' - '' @ r]))))
          else Inr acc)"

definition teamBlock :: "extracted_data \<Rightarrow> json \<Rightarrow> error + extracted_data" where
  "teamBlock extracted j =
     (if truthyOpt (field j ''employee'') \<or> truthyOpt (field j ''founder'') then
        bindE (spreadOr (field j ''employee'')) (\<lambda>es.
        bindE (spreadOr (field j ''founder'')) (\<lambda>fs.
        bindE (forEachE pushPerson (teamInfo extracted) (es @ fs)) (\<lambda>ts.
          Inr (extracted\<lparr>teamInfo := ts\<rparr>))))
      else Inr extracted)"

text \<open>The body of the loop over the records.\<close>

definition processJsonLd :: "extracted_data \<Rightarrow> json \<Rightarrow> error + extracted_data" where
  "processJsonLd extracted j =
     bindE (getField (Some j) ''@type'') (\<lambda>typ.
     bindE (if typ = Some (JStr ''Organization'') \<or> typ = Some (JStr ''Corporation'')
               \<or> typ = Some (JStr ''LocalBusiness'')
            then organizationBlock extracted j else Inr extracted) (\<lambda>e1.
     bindE (productsBlock e1 j typ) (\<lambda>e2.
     bindE (servicesBlock e2 j typ) (\<lambda>e3. teamBlock e3 j))))"

definition extractFromStructuredData :: "json list \<Rightarrow> error + extracted_data" where
  "extractFromStructuredData jsonLdArray =
     bindE (forEachE processJsonLd emptyData jsonLdArray) (\<lambda>extracted.
       Inr (extracted\<lparr>schemaData := Some jsonLdArray\<rparr>))"

section \<open>Extraction from meta tags\<close>

text \<open>\<open>for (const key of keys) if (metaTags[key]) { ...; break }\<close>: the value of the first
  key that has a non-empty one.\<close>

fun firstTruthy :: "(string \<Rightarrow> string option) \<Rightarrow> string list \<Rightarrow> string option" where
  "firstTruthy m [] = None"
| "firstTruthy m (k # ks) =
     (case m k of
        None \<Rightarrow> firstTruthy m ks
      | Some v \<Rightarrow> if v \<noteq> [] then Some v else firstTruthy m ks)"

definition extractFromMetaTags :: "(string \<Rightarrow> string option) \<Rightarrow> extracted_data" where
  "extractFromMetaTags tags =
     (let d = firstTruthy tags [''description'', ''og:description'', ''twitter:description''];
          n = map_option cleanCompanyName
                (firstTruthy tags [''og:site_name'', ''application-name'', ''title'', ''og:title'']);
          t = (case tags ''twitter:title'' of
                 None \<Rightarrow> None
               | Some tt \<Rightarrow> if tt \<noteq> [] \<and> Some tt \<noteq> n then Some tt else None)
      in emptyData\<lparr>description := map_option JStr d, companyName := map_option JStr n,
                   tagline := map_option JStr t\<rparr>)"

section \<open>Extraction from the page content\<close>

text \<open>The pattern \<^verbatim>\<open>/[a-zA-Z0-9._%+-]+@[a-zA-Z0-9.-]+\.[a-zA-Z]{2,}/g\<close>.\<close>

definition RE_EMAIL :: regex where
  "RE_EMAIL =
     seqs [Cls (\<lambda>c. isAlpha c \<or> isDigit c \<or> c \<in> set ''._%+-'') 1 None,
           chr CHR ''@'',
           Cls (\<lambda>c. isAlpha c \<or> isDigit c \<or> c \<in> set ''.-'') 1 None,
           chr CHR ''.'',
           Cls isAlpha 2 None]"

text \<open>The pattern
  \<^verbatim>\<open>/(\+?1[-.\s]?)?\(?([0-9]{3})\)?[-.\s]?([0-9]{3})[-.\s]?([0-9]{4})/g\<close>.\<close>

definition isPhoneSep :: "char \<Rightarrow> bool" where
  "isPhoneSep c = (c = CHR ''-'' \<or> c = CHR ''.'' \<or> isSpace c)"

definition RE_PHONE :: regex where
  "RE_PHONE =
     seqs [Opt (seqs [Cls (\<lambda>c. c = CHR ''+'') 0 (Some 1), chr CHR ''1'', Cls isPhoneSep 0 (Some 1)]),
           Cls (\<lambda>c. c = CHR ''('') 0 (Some 1),
           Cls isDigit 3 (Some 3),
           Cls (\<lambda>c. c = CHR '')'') 0 (Some 1),
           Cls isPhoneSep 0 (Some 1),
           Cls isDigit 3 (Some 3),
           Cls isPhoneSep 0 (Some 1),
           Cls isDigit 4 (Some 4)]"

text \<open>
  The patterns \<^verbatim>\<open>/(?:services|what we do|our solutions)[:\s]+([^.]+\.)/i\<close> and
  \<^verbatim>\<open>/(?:our mission|mission statement)[:\s]+([^.]+\.)/i\<close>, each as the part before
  its group and the group.
\<close>

definition RE_servicesIntro :: regex where
  "RE_servicesIntro =
     seqs [alts [lit_ci ''services'', lit_ci ''what we do'', lit_ci ''our solutions''],
           Cls (\<lambda>c. c = CHR '':'' \<or> isSpace c) 1 None]"

definition RE_missionIntro :: regex where
  "RE_missionIntro =
     seqs [alts [lit_ci ''our mission'', lit_ci ''mission statement''],
           Cls (\<lambda>c. c = CHR '':'' \<or> isSpace c) 1 None]"

text \<open>The group \<open>([^.]+\.)\<close>.\<close>

definition RE_sentence :: regex where
  "RE_sentence = seqs [Cls (\<lambda>c. c \<noteq> CHR ''.'') 1 None, chr CHR ''.'']"

text \<open>The pattern
  \<^verbatim>\<open>/href="([^"]*(?:api|developer|docs)[^"]*)"[^>]*>([^<]+)</gi\<close>.\<close>

definition RE_apiLink :: regex where
  "RE_apiLink =
     seqs [lit_ci ''href='', chr (CHR 0x22),
           Cls (\<lambda>c. c \<noteq> CHR 0x22) 0 None,
           alts [lit_ci ''api'', lit_ci ''developer'', lit_ci ''docs''],
           Cls (\<lambda>c. c \<noteq> CHR 0x22) 0 None,
           chr (CHR 0x22),
           Cls (\<lambda>c. c \<noteq> CHR ''>'') 0 None,
           chr CHR ''>'',
           Cls (\<lambda>c. c \<noteq> CHR ''<'') 1 None,
           chr CHR ''<'']"

text \<open>The filter on the matched addresses.\<close>

definition isContactEmail :: "string \<Rightarrow> bool" where
  "isContactEmail e =
     (\<not> str_includes e ''@gmail.'' \<and> \<not> str_includes e ''@yahoo.'' \<and> \<not> str_includes e ''@hotmail.''
      \<and> (str_includes e ''contact'' \<or> str_includes e ''info'' \<or> str_includes e ''support''
          \<or> str_includes e ''sales''))"

definition firstSlot :: "string list \<Rightarrow> json slot" where
  "firstSlot xs = (case xs of [] \<Rightarrow> Missing | x # _ \<Rightarrow> Value (JStr x))"

definition extractFromContent :: "string \<Rightarrow> string \<Rightarrow> extracted_data" where
  "extractFromContent text markup =
     (let emails = matchAll RE_EMAIL 0 text;
          contactEmails = filter isContactEmail emails;
          phones = matchAll RE_PHONE 0 text;
          servicesFound =
            (case firstGroup RE_servicesIntro RE_sentence text of
               None \<Rightarrow> []
             | Some g \<Rightarrow>
                 filter (\<lambda>s. \<not> containsExcludedContent s)
                   (map trim (splitOn (\<lambda>c. c = CHR '','' \<or> c = CHR '';'') g)));
          missionFound = map_option trim (firstGroup RE_missionIntro RE_sentence text);
          api = (if search RE_apiLink markup \<noteq> None
                 then Some ''API documentation available'' else None)
      in emptyData
           \<lparr>contactInfo := emptyContact\<lparr>email := firstSlot contactEmails, phone := firstSlot phones\<rparr>,
            services := servicesFound, mission := missionFound, apiDocs := api\<rparr>)"

section \<open>Merging the sources\<close>

text \<open>
  \<open>{...merged.contactInfo, ...value}\<close>: a key that is present in the later object (even
  with the value \<open>undefined\<close>) replaces the one of the earlier object.
\<close>

definition spreadSlot :: "'a slot \<Rightarrow> 'a slot \<Rightarrow> 'a slot" where
  "spreadSlot earlier later = (case later of Missing \<Rightarrow> earlier | _ \<Rightarrow> later)"

definition spreadContact :: "contact_info \<Rightarrow> contact_info \<Rightarrow> contact_info" where
  "spreadContact a b =
     \<lparr>email = spreadSlot (email a) (email b), phone = spreadSlot (phone a) (phone b),
      address = spreadSlot (address a) (address b),
      socialMedia = spreadSlot (socialMedia a) (socialMedia b)\<rparr>"

text \<open>The branch for a field that only ever holds strings or other primitive values: a
  value that is neither \<open>undefined\<close> nor \<open>null\<close> is assigned.\<close>

definition assign :: "'a option \<Rightarrow> 'a option \<Rightarrow> 'a option" where
  "assign old new = (case new of None \<Rightarrow> old | Some v \<Rightarrow> Some v)"

text \<open>
  A set compares numbers, strings, booleans and \<open>null\<close> by value and arrays and objects
  by identity; the arrays and objects of different sources are different objects.
\<close>

definition isPrimitive :: "json \<Rightarrow> bool" where
  "isPrimitive v = (case v of JArr xs \<Rightarrow> False | JObj kvs \<Rightarrow> False | _ \<Rightarrow> True)"

definition setInsertJson :: "json \<Rightarrow> json list \<Rightarrow> json list" where
  "setInsertJson x acc = (if isPrimitive x \<and> x \<in> set acc then acc else acc @ [x])"

text \<open>
  The raw records are an array, but the merged object starts without the key: the first
  source that has them assigns them, a later one is united with them.
\<close>

definition mergeSchema :: "json list option \<Rightarrow> json list option \<Rightarrow> json list option" where
  "mergeSchema old new =
     (case new of
        None \<Rightarrow> old
      | Some v \<Rightarrow>
          (case old of None \<Rightarrow> Some v | Some existing \<Rightarrow> Some (fold setInsertJson (existing @ v) [])))"

text \<open>
  What \<open>...x\<close> copies into an object literal: the entries of an object, the elements of
  an array and the characters of a string under their indices, nothing of any other
  value.
\<close>

definition indexed :: "json list \<Rightarrow> (string \<times> json) list" where
  "indexed xs = zip (map natDigits [0 ..< length xs]) xs"

definition ownProps :: "json option \<Rightarrow> (string \<times> json) list" where
  "ownProps x =
     (case x of
        Some (JObj kvs) \<Rightarrow> kvs
      | Some (JArr xs) \<Rightarrow> indexed xs
      | Some (JStr s) \<Rightarrow> indexed (map (\<lambda>c. JStr [c]) s)
      | _ \<Rightarrow> [])"

text \<open>
  The three branches of the merge for a field that holds a value of any kind: a value
  that is \<open>undefined\<close> or \<open>null\<close> is skipped; an array is united with an array that
  is there already; an object is spread over what is there; every other value, and an
  array where no array is yet, is assigned.
\<close>

definition mergeValue :: "json option \<Rightarrow> json option \<Rightarrow> json option" where
  "mergeValue old new =
     (case new of
        None \<Rightarrow> old
      | Some JNull \<Rightarrow> old
      | Some (JArr vs) \<Rightarrow>
          (case old of
             Some (JArr existing) \<Rightarrow> Some (JArr (fold setInsertJson (existing @ vs) []))
           | _ \<Rightarrow> Some (JArr vs))
      | Some (JObj kvs) \<Rightarrow> Some (JObj (fold (\<lambda>(k, v) acc. setKey k v acc) kvs (ownProps old)))
      | Some v \<Rightarrow> Some v)"

text \<open>The body of the loop over the sources: every key of the source, by the kind of
  its value.\<close>

definition mergeSource :: "extracted_data \<Rightarrow> extracted_data \<Rightarrow> extracted_data" where
  "mergeSource merged source =
     \<lparr>companyName = mergeValue (companyName merged) (companyName source),
      tagline = mergeValue (tagline merged) (tagline source),
      description = mergeValue (description merged) (description source),
      services = uniq (services merged @ services source),
      products = uniq (products merged @ products source),
      contactInfo = spreadContact (contactInfo merged) (contactInfo source),
      mission = assign (mission merged) (mission source),
      teamInfo = uniq (teamInfo merged @ teamInfo source),
      apiDocs = assign (apiDocs merged) (apiDocs source),
      schemaData = mergeSchema (schemaData merged) (schemaData source),
      businessType = assign (businessType merged) (businessType source)\<rparr>"

definition mergeExtractedData :: "extracted_data list \<Rightarrow> extracted_data" where
  "mergeExtractedData dataSources = foldl mergeSource emptyData dataSources"

section \<open>Classification\<close>

text \<open>An element of the joined array that is \<open>undefined\<close> or \<open>null\<close> is joined as the
  empty string, every other element as its conversion to a string.\<close>

definition joinedItem :: "json option \<Rightarrow> error + string" where
  "joinedItem x = (case x of None \<Rightarrow> Inr [] | Some v \<Rightarrow> if v = JNull then Inr [] else toStr v)"

definition allText :: "extracted_data \<Rightarrow> error + string" where
  "allText d =
     bindE (mapE joinedItem [companyName d, description d, tagline d]) (\<lambda>items.
       Inr (toLowerCase (join '' '' (items @ services d @ products d))))"

text \<open>\<open>keywords.forEach(keyword => { if (allText.includes(keyword)) score++ })\<close>.\<close>

definition keywordScore :: "string \<Rightarrow> string list \<Rightarrow> nat" where
  "keywordScore txt keywords =
     fold (\<lambda>keyword score. if str_includes txt keyword then score + 1 else score) keywords 0"

definition classifyText :: "string \<Rightarrow> business_type" where
  "classifyText txt =
     (let catalogScore = keywordScore txt KEYWORDS_catalog;
          specialistScore = keywordScore txt KEYWORDS_specialist;
          ecosystemScore = keywordScore txt KEYWORDS_ecosystem
      in if catalogScore \<ge> specialistScore \<and> catalogScore \<ge> ecosystemScore then Catalog
         else if ecosystemScore \<ge> specialistScore then Ecosystem
         else Specialist)"

definition classifyBusinessType :: "extracted_data \<Rightarrow> error + business_type" where
  "classifyBusinessType d = bindE (allText d) (\<lambda>txt. Inr (classifyText txt))"

section \<open>Cleaning\<close>

definition notEmpty :: "string \<Rightarrow> bool" where
  "notEmpty s = (s \<noteq> [])"

definition cleanExtractedData :: "extracted_data \<Rightarrow> extracted_data" where
  "cleanExtractedData d =
     (let services1 = filter notEmpty (uniq (services d));
          products1 = filter notEmpty (uniq (products d));
          services2 = filter (\<lambda>s. \<not> containsExcludedContent s) services1;
          products2 = filter (\<lambda>p. \<not> containsExcludedContent p) products1;
          team = filter notEmpty (uniq (teamInfo d));
          name = (if \<not> truthyOpt (companyName d) then Some (JStr ''Company Name'')
                  else companyName d);
          descr = (if \<not> truthyOpt (description d) then Some (JStr ''No description available.'')
                   else description d)
      in d\<lparr>services := services2, products := products2, teamInfo := team,
            companyName := name, description := descr\<rparr>)"

section \<open>The pipeline\<close>

definition extractData :: "scraped_content \<Rightarrow> error + extracted_data" where
  "extractData scrapedContent =
     bindE (extractFromStructuredData (jsonLd scrapedContent)) (\<lambda>structuredData.
       (let metaData = extractFromMetaTags (metaTags scrapedContent);
            contentData = extractFromContent (textContent scrapedContent) (html scrapedContent);
            mergedData = mergeExtractedData [structuredData, metaData, contentData]
        in bindE (classifyBusinessType mergedData) (\<lambda>businessType'.
             Inr (cleanExtractedData (mergedData\<lparr>businessType := Some businessType'\<rparr>)))))"

section \<open>The quality score\<close>

definition truthyStr :: "string option \<Rightarrow> bool" where
  "truthyStr x = (case x of None \<Rightarrow> False | Some s \<Rightarrow> s \<noteq> [])"

definition truthySlot :: "json slot \<Rightarrow> bool" where
  "truthySlot x = (case x of Value v \<Rightarrow> truthy v | _ \<Rightarrow> False)"

definition truthyStrSlot :: "string slot \<Rightarrow> bool" where
  "truthyStrSlot x = (case x of Value s \<Rightarrow> s \<noteq> [] | _ \<Rightarrow> False)"

definition hasSocial :: "(string \<times> json) list slot \<Rightarrow> bool" where
  "hasSocial x = (case x of Value kvs \<Rightarrow> length kvs > 0 | _ \<Rightarrow> False)"

definition calculateQualityScore :: "extracted_data \<Rightarrow> int" where
  "calculateQualityScore d =
     (let maxScore = 100;
          s1 = (if truthyOpt (companyName d) \<and> companyName d \<noteq> Some (JStr ''Company Name'')
                then 10 else 0);
          s2 = (if truthyOpt (description d)
                   \<and> description d \<noteq> Some (JStr ''No description available.'')
                then s1 + 10 else s1);
          s3 = (if length (services d) > 0 then s2 + min 10 (int (length (services d)) * 2) else s2);
          s4 = (if length (products d) > 0 then s3 + min 10 (int (length (products d)) * 2) else s3);
          s5 = (if truthySlot (email (contactInfo d)) then s4 + 10 else s4);
          s6 = (if truthySlot (phone (contactInfo d)) then s5 + 5 else s5);
          s7 = (if truthyStrSlot (address (contactInfo d)) then s6 + 5 else s6);
          s8 = (if truthyStr (mission d) then s7 + 5 else s7);
          s9 = (if length (teamInfo d) > 0 then s8 + 5 else s8);
          s10 = (if truthyStr (apiDocs d) then s9 + 5 else s9);
          s11 = (if hasSocial (socialMedia (contactInfo d)) then s10 + 5 else s10);
          s12 = (case schemaData d of
                   None \<Rightarrow> s11
                 | Some records \<Rightarrow> if length records > 0 then s11 + 20 else s11)
      in min s12 maxScore)"

section \<open>The generation endpoint\<close>

text \<open>
  The handler of \<open>POST /api/generate\<close>, on a body that passed the schema (\<open>None\<close> is a body
  that did not).  The generator is the external step: it returns the generated text or
  throws an error with a message.  The result records the status of the response,
  whether it reports success, and whether the generator was called.
\<close>

record generate_request =
  extractedData :: extracted_data
  sourceUrl :: string
  qualityScore :: "int option"

record generate_result =
  status :: nat
  success :: bool
  generatorCalled :: bool

definition errorStatus :: "string \<Rightarrow> nat" where
  "errorStatus message =
     (if str_includes message ''API key'' then 401
      else if str_includes message ''rate limit'' then 429
      else if str_includes message ''timeout'' then 504
      else if str_includes message ''exceeds maximum file size'' then 413
      else 500)"

definition POST_generate ::
  "string option \<Rightarrow> (extracted_data \<Rightarrow> string \<Rightarrow> string + string) \<Rightarrow> (string \<Rightarrow> bool)
     \<Rightarrow> generate_request option \<Rightarrow> generate_result" where
  "POST_generate apiKey generateLLMSText validateGeneratedContent body =
     (case body of
        None \<Rightarrow> \<lparr>status = 400, success = False, generatorCalled = False\<rparr>
      | Some req \<Rightarrow>
          if (case qualityScore req of None \<Rightarrow> False | Some q \<Rightarrow> q \<noteq> 0 \<and> q < 20)
          then \<lparr>status = 400, success = False, generatorCalled = False\<rparr>
          else if \<not> truthyStr apiKey
          then \<lparr>status = 500, success = False, generatorCalled = False\<rparr>
          else (case generateLLMSText (extractedData req) (sourceUrl req) of
                  Inl message \<Rightarrow>
                    \<lparr>status = errorStatus message, success = False, generatorCalled = True\<rparr>
                | Inr content \<Rightarrow>
                    if \<not> validateGeneratedContent content
                    then \<lparr>status = 500, success = False, generatorCalled = True\<rparr>
                    else \<lparr>status = 200, success = True, generatorCalled = True\<rparr>))"

section \<open>The specification's words\<close>

text \<open>
  The contributions to the quality score as the specification lists them: name 10,
  description 10 (each only when it is not the placeholder), services and products 2
  each up to 10, email 10, phone 5, address 5, mission 5, team 5, API documentation 5,
  social media 5, structured-data records 20.
\<close>

definition contributions :: "extracted_data \<Rightarrow> int list" where
  "contributions d =
     [if truthyOpt (companyName d) \<and> companyName d \<noteq> Some (JStr ''Company Name'')
        then 10 else 0,
      if truthyOpt (description d) \<and> description d \<noteq> Some (JStr ''No description available.'')
        then 10 else 0,
      min 10 (2 * int (length (services d))),
      min 10 (2 * int (length (products d))),
      if truthySlot (email (contactInfo d)) then 10 else 0,
      if truthySlot (phone (contactInfo d)) then 5 else 0,
      if truthyStrSlot (address (contactInfo d)) then 5 else 0,
      if truthyStr (mission d) then 5 else 0,
      if teamInfo d \<noteq> [] then 5 else 0,
      if truthyStr (apiDocs d) then 5 else 0,
      if hasSocial (socialMedia (contactInfo d)) then 5 else 0,
      case schemaData d of None \<Rightarrow> 0 | Some records \<Rightarrow> if records \<noteq> [] then 20 else 0]"

text \<open>
  Stable deduplication as the specification words it: the values of a list at the
  positions where they occur for the first time, in the order of those positions.
\<close>

definition firstOccurrences :: "'a list \<Rightarrow> 'a list" where
  "firstOccurrences xs =
     map (\<lambda>i. xs ! i) (filter (\<lambda>i. xs ! i \<notin> set (take i xs)) [0 ..< length xs])"

text \<open>
  An email-shaped token: a non-empty local part of letters, digits and \<open>._%+-\<close>, the at
  sign, a non-empty domain of letters, digits, dots and hyphens, a dot, and at least two
  letters.
\<close>

definition isLocalChar :: "char \<Rightarrow> bool" where
  "isLocalChar c = (isAlpha c \<or> isDigit c \<or> c \<in> set ''._%+-'')"

definition isDomainChar :: "char \<Rightarrow> bool" where
  "isDomainChar c = (isAlpha c \<or> isDigit c \<or> c \<in> set ''.-'')"

definition emailShaped :: "string \<Rightarrow> bool" where
  "emailShaped m =
     (\<exists>l d t. m = l @ ''@'' @ d @ ''.'' @ t
        \<and> l \<noteq> [] \<and> list_all isLocalChar l
        \<and> d \<noteq> [] \<and> list_all isDomainChar d
        \<and> 2 \<le> length t \<and> list_all isAlpha t)"

section \<open>Example inputs\<close>

text \<open>A page without any content.\<close>

definition emptyBundle :: scraped_content where
  "emptyBundle =
     \<lparr>html = [], textContent = [], metaTags = (\<lambda>k. None), jsonLd = [],
      finalUrl = ''https://example.com/''\<rparr>"

text \<open>The example of the specification: an organisation record with the name
  \<open>Acme Corp - Official\<close> and the meta tag \<open>og:site_name\<close> with the value \<open>Acme\<close>.\<close>

definition acmeBundle :: scraped_content where
  "acmeBundle =
     \<lparr>html = [], textContent = [],
      metaTags = (\<lambda>k. if k = ''og:site_name'' then Some ''Acme'' else None),
      jsonLd =
        [JObj [(''@type'', JStr ''Organization''), (''name'', JStr ''Acme Corp - Official''),
               (''sameAs'', JArr [JStr ''https://facebook.com/acme''])]],
      finalUrl = ''https://acme.com/''\<rparr>"

text \<open>A page whose text lists services, one of them about pricing.\<close>

definition servicesBundle :: scraped_content where
  "servicesBundle =
     \<lparr>html = [], textContent = ''Our services: Consulting, Pricing Plans, Support.'',
      metaTags = (\<lambda>k. None), jsonLd = [], finalUrl = ''https://example.com/''\<rparr>"

text \<open>A profile whose description names two keywords of the specialist archetype.\<close>

definition agencyProfile :: extracted_data where
  "agencyProfile = emptyData\<lparr>description := Some (JStr ''A consulting agency of experts'')\<rparr>"

text \<open>A page with one organisation record that has a name and a description, and
  nothing else.\<close>

definition orgBundle :: scraped_content where
  "orgBundle =
     \<lparr>html = [], textContent = [], metaTags = (\<lambda>k. None),
      jsonLd =
        [JObj [(''@type'', JStr ''Organization''), (''name'', JStr ''Acme Logistics''),
               (''description'', JStr ''Freight forwarding across Europe'')]],
      finalUrl = ''https://acme.example/''\<rparr>"

text \<open>A page whose only record is an organisation with an empty list as its name.\<close>

definition emptyNameBundle :: scraped_content where
  "emptyNameBundle =
     \<lparr>html = [], textContent = [], metaTags = (\<lambda>k. None),
      jsonLd = [JObj [(''@type'', JStr ''Organization''), (''name'', JArr [])]],
      finalUrl = ''https://example.com/''\<rparr>"

section \<open>Substrings\<close>

lemma startsWith_iff: "startsWith s n \<longleftrightarrow> (\<exists>b. s = n @ b)"
  by (induction s n rule: startsWith.induct) auto

lemma str_includes_iff: "str_includes s n \<longleftrightarrow> (\<exists>a b. s = a @ n @ b)"
proof (induction s)
  case Nil
  then show ?case by auto
next
  case (Cons c cs)
  show ?case
  proof
    assume "str_includes (c # cs) n"
    then consider "startsWith (c # cs) n" | "str_includes cs n" by auto
    then show "\<exists>a b. c # cs = a @ n @ b"
    proof cases
      case 1
      then obtain b where "c # cs = n @ b" using startsWith_iff by blast
      then have "c # cs = [] @ n @ b" by simp
      then show ?thesis by blast
    next
      case 2
      then obtain a b where "cs = a @ n @ b" using Cons.IH by blast
      then have "c # cs = (c # a) @ n @ b" by simp
      then show ?thesis by blast
    qed
  next
    assume "\<exists>a b. c # cs = a @ n @ b"
    then obtain a b where ab: "c # cs = a @ n @ b" by blast
    show "str_includes (c # cs) n"
    proof (cases a)
      case Nil
      with ab have "startsWith (c # cs) n" using startsWith_iff by auto
      then show ?thesis by simp
    next
      case (Cons x a')
      with ab have "cs = a' @ n @ b" by simp
      then have "str_includes cs n" using Cons.IH by blast
      then show ?thesis by simp
    qed
  qed
qed

section \<open>The platform of a URL\<close>

lemma firstContained_Some:
  "firstContained has es = Some p \<longleftrightarrow>
     (\<exists>i < length es. has (fst (es ! i)) \<and> snd (es ! i) = p \<and> (\<forall>j < i. \<not> has (fst (es ! j))))"
proof (induction es)
  case Nil
  then show ?case by simp
next
  case (Cons e es)
  obtain d q where e: "e = (d, q)" by (cases e)
  show ?case
  proof (cases "has d")
    case True
    have "(\<exists>i < length (e # es). has (fst ((e # es) ! i)) \<and> snd ((e # es) ! i) = p
            \<and> (\<forall>j < i. \<not> has (fst ((e # es) ! j)))) \<longleftrightarrow> q = p"
    proof
      assume "\<exists>i < length (e # es). has (fst ((e # es) ! i)) \<and> snd ((e # es) ! i) = p
            \<and> (\<forall>j < i. \<not> has (fst ((e # es) ! j)))"
      then obtain i where i: "i < length (e # es)" "snd ((e # es) ! i) = p"
        "\<forall>j < i. \<not> has (fst ((e # es) ! j))" by blast
      have "i = 0"
      proof (rule ccontr)
        assume "i \<noteq> 0"
        then have "\<not> has (fst ((e # es) ! 0))" using i(3) by blast
        then show False using True e by simp
      qed
      then show "q = p" using i(2) e by simp
    next
      assume "q = p"
      then have "0 < length (e # es) \<and> has (fst ((e # es) ! 0)) \<and> snd ((e # es) ! 0) = p
         \<and> (\<forall>j < 0. \<not> has (fst ((e # es) ! j)))" using True e by simp
      then show "\<exists>i < length (e # es). has (fst ((e # es) ! i)) \<and> snd ((e # es) ! i) = p
            \<and> (\<forall>j < i. \<not> has (fst ((e # es) ! j)))" by blast
    qed
    then show ?thesis using True e by simp
  next
    case False
    have "(\<exists>i < length (e # es). has (fst ((e # es) ! i)) \<and> snd ((e # es) ! i) = p
            \<and> (\<forall>j < i. \<not> has (fst ((e # es) ! j)))) \<longleftrightarrow>
          (\<exists>i < length es. has (fst (es ! i)) \<and> snd (es ! i) = p \<and> (\<forall>j < i. \<not> has (fst (es ! j))))"
      (is "?L \<longleftrightarrow> ?R")
    proof
      assume ?L
      then obtain i where i: "i < length (e # es)" "has (fst ((e # es) ! i))"
        "snd ((e # es) ! i) = p" "\<forall>j < i. \<not> has (fst ((e # es) ! j))" by blast
      have "i \<noteq> 0" using i(2) False e by (cases i) auto
      then obtain k where k: "i = Suc k" by (cases i) auto
      have "\<forall>j < k. \<not> has (fst (es ! j))"
      proof (intro allI impI)
        fix j assume "j < k"
        then have "Suc j < i" using k by simp
        then have "\<not> has (fst ((e # es) ! Suc j))" using i(4) by blast
        then show "\<not> has (fst (es ! j))" by simp
      qed
      then have "k < length es \<and> has (fst (es ! k)) \<and> snd (es ! k) = p
          \<and> (\<forall>j < k. \<not> has (fst (es ! j)))" using i k by simp
      then show ?R by blast
    next
      assume ?R
      then obtain k where k: "k < length es" "has (fst (es ! k))" "snd (es ! k) = p"
        "\<forall>j < k. \<not> has (fst (es ! j))" by blast
      have "\<forall>j < Suc k. \<not> has (fst ((e # es) ! j))"
      proof (intro allI impI)
        fix j assume "j < Suc k"
        then show "\<not> has (fst ((e # es) ! j))" using k(4) False e by (cases j) auto
      qed
      then have "Suc k < length (e # es) \<and> has (fst ((e # es) ! Suc k))
         \<and> snd ((e # es) ! Suc k) = p \<and> (\<forall>j < Suc k. \<not> has (fst ((e # es) ! j)))"
        using k by simp
      then show ?L by blast
    qed
    then show ?thesis using False e Cons.IH by simp
  qed
qed

lemma firstContained_None:
  "firstContained has es = None \<longleftrightarrow> (\<forall>d \<in> set (map fst es). \<not> has d)"
  by (induction has es rule: firstContained.induct) auto

text \<open>
  Claim C10.  \<open>identifySocialPlatform\<close> tests the domains in the order facebook.com,
  twitter.com, x.com, linkedin.com, instagram.com, youtube.com, github.com, each by
  containment anywhere in the URL, and returns the platform of the first domain that the
  URL contains, \<open>null\<close> when it contains none.  So a URL whose host only contains a domain
  inside another name gets a platform: the address of netflix.com contains x.com and is
  taken for twitter.
\<close>

theorem identifySocialPlatform_first_contained:
  "map fst platforms =
     [''facebook.com'', ''twitter.com'', ''x.com'', ''linkedin.com'', ''instagram.com'',
      ''youtube.com'', ''github.com'']
   \<and> map snd platforms =
     [''facebook'', ''twitter'', ''twitter'', ''linkedin'', ''instagram'', ''youtube'', ''github'']
   \<and> (identifySocialPlatform url = Some p \<longleftrightarrow>
        (\<exists>i < length platforms.
            (\<exists>a b. url = a @ fst (platforms ! i) @ b) \<and> snd (platforms ! i) = p
            \<and> (\<forall>j < i. \<not> (\<exists>a b. url = a @ fst (platforms ! j) @ b))))
   \<and> (identifySocialPlatform url = None \<longleftrightarrow>
        (\<forall>d \<in> set (map fst platforms). \<not> (\<exists>a b. url = a @ d @ b)))
   \<and> identifySocialPlatform ''https://www.netflix.com/browse'' = Some ''twitter''"
proof -
  have order: "map fst platforms =
     [''facebook.com'', ''twitter.com'', ''x.com'', ''linkedin.com'', ''instagram.com'',
      ''youtube.com'', ''github.com'']"
    by (simp add: platforms_def)
  have names: "map snd platforms =
     [''facebook'', ''twitter'', ''twitter'', ''linkedin'', ''instagram'', ''youtube'', ''github'']"
    by (simp add: platforms_def)
  have some: "identifySocialPlatform url = Some p \<longleftrightarrow>
        (\<exists>i < length platforms.
            (\<exists>a b. url = a @ fst (platforms ! i) @ b) \<and> snd (platforms ! i) = p
            \<and> (\<forall>j < i. \<not> (\<exists>a b. url = a @ fst (platforms ! j) @ b)))"
    unfolding identifySocialPlatform_def firstContained_Some str_includes_iff ..
  have none: "identifySocialPlatform url = None \<longleftrightarrow>
        (\<forall>d \<in> set (map fst platforms). \<not> (\<exists>a b. url = a @ d @ b))"
    unfolding identifySocialPlatform_def firstContained_None str_includes_iff ..
  have ex: "identifySocialPlatform ''https://www.netflix.com/browse'' = Some ''twitter''"
    by code_simp
  show ?thesis using order names some none ex by blast
qed

theorem identifySocialPlatform_first_contained_witness:
  "identifySocialPlatform ''https://www.netflix.com/browse'' = Some ''twitter''
   \<and> identifySocialPlatform ''https://example.org/'' = None
   \<and> (\<exists>i < length platforms.
          (\<exists>a b. ''https://www.netflix.com/browse'' = a @ fst (platforms ! i) @ b)
          \<and> snd (platforms ! i) = ''twitter'')"
proof -
  have n: "identifySocialPlatform ''https://example.org/'' = None" by code_simp
  have t: "identifySocialPlatform ''https://www.netflix.com/browse'' = Some ''twitter''"
    using identifySocialPlatform_first_contained [of "''https://www.netflix.com/browse''" "''twitter''"]
    by blast
  then have "\<exists>i < length platforms.
          (\<exists>a b. ''https://www.netflix.com/browse'' = a @ fst (platforms ! i) @ b)
          \<and> snd (platforms ! i) = ''twitter''"
    using identifySocialPlatform_first_contained [of "''https://www.netflix.com/browse''" "''twitter''"]
    by blast
  then show ?thesis using n t by blast
qed

section \<open>The quality score\<close>

lemma if_plus: "(if c then (s::int) + k else s) = s + (if c then k else 0)"
  by simp

lemma if_len: "(if 0 < length xs then min 10 (int (length xs) * 2) else 0)
    = min 10 (2 * int (length xs))"
  by (cases xs) auto

lemma if_len': "(if xs \<noteq> [] then min 10 (int (length xs) * 2) else 0)
    = min 10 (2 * int (length xs))"
  by (cases xs) auto

lemma if_len20: "(if 0 < length xs then (20::int) else 0) = (if xs \<noteq> [] then 20 else 0)"
  by simp

lemma if_len5: "(if 0 < length xs then (5::int) else 0) = (if xs \<noteq> [] then 5 else 0)"
  by simp

lemma score_raw: "calculateQualityScore d = min (sum_list (contributions d)) 100"
proof (cases "schemaData d")
  case None
  then show ?thesis
    unfolding calculateQualityScore_def Let_def contributions_def if_plus
    by (simp split del: if_split add: if_len if_len' if_len5 algebra_simps)
next
  case (Some records)
  then show ?thesis
    unfolding calculateQualityScore_def Let_def contributions_def if_plus
    by (simp split del: if_split add: if_len if_len' if_len5 if_len20 algebra_simps)
qed

lemma contributions_bounds:
  "0 \<le> sum_list (contributions d) \<and> sum_list (contributions d) \<le> 100"
proof -
  have a: "0 \<le> (if c then 10 else (0::int)) \<and> (if c then 10 else (0::int)) \<le> 10" for c by simp
  have b: "0 \<le> (if c then 5 else (0::int)) \<and> (if c then 5 else (0::int)) \<le> 5" for c by simp
  have c: "0 \<le> min 10 (2 * int n) \<and> min 10 (2 * int n) \<le> 10" for n by simp
  have e: "0 \<le> (case schemaData d of None \<Rightarrow> (0::int) | Some records \<Rightarrow> if records \<noteq> [] then 20 else 0)
     \<and> (case schemaData d of None \<Rightarrow> (0::int) | Some records \<Rightarrow> if records \<noteq> [] then 20 else 0) \<le> 20"
    by (cases "schemaData d") auto
  show ?thesis
    unfolding contributions_def sum_list.Cons sum_list.Nil
    using a [of "truthyOpt (companyName d) \<and> companyName d \<noteq> Some (JStr ''Company Name'')"]
      a [of "truthyOpt (description d) \<and> description d \<noteq> Some (JStr ''No description available.'')"]
      c [of "length (services d)"] c [of "length (products d)"]
      a [of "truthySlot (email (contactInfo d))"]
      b [of "truthySlot (phone (contactInfo d))"]
      b [of "truthyStrSlot (address (contactInfo d))"]
      b [of "truthyStr (mission d)"]
      b [of "teamInfo d \<noteq> []"]
      b [of "truthyStr (apiDocs d)"]
      b [of "hasSocial (socialMedia (contactInfo d))"]
      e
    by linarith
qed

lemma score_eq_sum: "calculateQualityScore d = sum_list (contributions d)"
  using score_raw [of d] contributions_bounds [of d] by simp

lemma score_append_service:
  "calculateQualityScore d \<le> calculateQualityScore (d\<lparr>services := services d @ [s]\<rparr>)"
proof -
  have "min 10 (2 * int (length (services d))) \<le> min 10 (2 * int (length (services d @ [s])))"
    by simp
  then show ?thesis
    unfolding score_eq_sum contributions_def by (simp split del: if_split)
qed

text \<open>
  Claim C4.  The quality score is an integer between 0 and 100; a profile with one more
  service appended never scores less; and the score is the sum of the listed
  contributions, capped at 100.
\<close>

theorem calculateQualityScore_range_monotone_sum:
  "0 \<le> calculateQualityScore d \<and> calculateQualityScore d \<le> 100
   \<and> calculateQualityScore d \<le> calculateQualityScore (d\<lparr>services := services d @ [s]\<rparr>)
   \<and> calculateQualityScore d = min 100 (sum_list (contributions d))"
proof -
  have "0 \<le> calculateQualityScore d \<and> calculateQualityScore d \<le> 100"
    using score_eq_sum [of d] contributions_bounds [of d] by simp
  moreover have "calculateQualityScore d = min 100 (sum_list (contributions d))"
    using score_raw [of d] by (simp add: min.commute)
  ultimately show ?thesis using score_append_service [of d s] by blast
qed

theorem calculateQualityScore_range_monotone_sum_witness:
  "calculateQualityScore (emptyData\<lparr>companyName := Some (JStr ''Acme'')\<rparr>) = 10
   \<and> calculateQualityScore (emptyData\<lparr>companyName := Some (JStr ''Acme''), services := [''Consulting'']\<rparr>) = 12
   \<and> calculateQualityScore (emptyData\<lparr>companyName := Some (JStr ''Acme'')\<rparr>)
       \<le> calculateQualityScore (emptyData\<lparr>companyName := Some (JStr ''Acme''), services := [''Consulting'']\<rparr>)"
proof -
  have a: "calculateQualityScore (emptyData\<lparr>companyName := Some (JStr ''Acme'')\<rparr>) = 10"
    by code_simp
  have b: "calculateQualityScore (emptyData\<lparr>companyName := Some (JStr ''Acme''), services := [''Consulting'']\<rparr>) = 12"
    by code_simp
  have c: "(emptyData\<lparr>companyName := Some (JStr ''Acme'')\<rparr>)
             \<lparr>services := services (emptyData\<lparr>companyName := Some (JStr ''Acme'')\<rparr>) @ [''Consulting'']\<rparr>
           = emptyData\<lparr>companyName := Some (JStr ''Acme''), services := [''Consulting'']\<rparr>"
    by (simp add: emptyData_def)
  show ?thesis
    using calculateQualityScore_range_monotone_sum
            [of "emptyData\<lparr>companyName := Some (JStr ''Acme'')\<rparr>" "''Consulting''"] a b c
    by simp
qed

section \<open>Deduplication in the merge\<close>

lemma uniq_snoc: "uniq (xs @ [x]) = setInsert x (uniq xs)"
  by (simp add: uniq_def)

lemma uniq_rev_remdups: "uniq xs = rev (remdups (rev xs))"
proof (induction xs rule: rev_induct)
  case Nil
  then show ?case by (simp add: uniq_def)
next
  case (snoc x xs)
  have "set (uniq xs) = set xs" using snoc by simp
  then show ?case using snoc by (simp add: uniq_snoc setInsert_def)
qed

lemma set_uniq: "set (uniq xs) = set xs"
  by (simp add: uniq_rev_remdups)

lemma distinct_uniq: "distinct (uniq xs)"
  by (simp add: uniq_rev_remdups)

lemma uniq_distinct_id: "distinct xs \<Longrightarrow> uniq xs = xs"
  by (simp add: uniq_rev_remdups distinct_remdups_id)

lemma fold_setInsert_acc: "fold setInsert ys (uniq xs) = uniq (xs @ ys)"
  by (simp add: uniq_def)

lemma uniq_uniq_append: "uniq (uniq xs @ ys) = uniq (xs @ ys)"
proof -
  have "uniq (uniq xs @ ys) = fold setInsert ys (uniq (uniq xs))"
    by (simp add: uniq_def)
  also have "uniq (uniq xs) = uniq xs"
    by (rule uniq_distinct_id) (rule distinct_uniq)
  finally show ?thesis by (simp add: fold_setInsert_acc)
qed

lemma firstOccurrences_snoc:
  "firstOccurrences (xs @ [x]) = firstOccurrences xs @ (if x \<in> set xs then [] else [x])"
proof -
  have f: "filter (\<lambda>i. (xs @ [x]) ! i \<notin> set (take i (xs @ [x]))) [0 ..< length xs]
         = filter (\<lambda>i. xs ! i \<notin> set (take i xs)) [0 ..< length xs]"
    by (rule filter_cong) (auto simp: nth_append)
  have m: "map (\<lambda>i. (xs @ [x]) ! i) (filter (\<lambda>i. xs ! i \<notin> set (take i xs)) [0 ..< length xs])
         = map (\<lambda>i. xs ! i) (filter (\<lambda>i. xs ! i \<notin> set (take i xs)) [0 ..< length xs])"
    by (rule map_cong) (auto simp: nth_append)
  show ?thesis
    unfolding firstOccurrences_def using f m by simp
qed

lemma uniq_firstOccurrences: "uniq xs = firstOccurrences xs"
proof (induction xs rule: rev_induct)
  case Nil
  then show ?case by (simp add: uniq_def firstOccurrences_def)
next
  case (snoc x xs)
  have "set (firstOccurrences xs) = set xs" using snoc set_uniq [of xs] by simp
  then show ?case
    using snoc by (simp add: uniq_snoc firstOccurrences_snoc setInsert_def)
qed

lemma merge3_services:
  "services (mergeExtractedData [a, b, c]) = uniq (services a @ services b @ services c)"
  by (simp add: mergeExtractedData_def mergeSource_def emptyData_def uniq_uniq_append)

lemma merge3_products:
  "products (mergeExtractedData [a, b, c]) = uniq (products a @ products b @ products c)"
  by (simp add: mergeExtractedData_def mergeSource_def emptyData_def uniq_uniq_append)

lemma merge3_teamInfo:
  "teamInfo (mergeExtractedData [a, b, c]) = uniq (teamInfo a @ teamInfo b @ teamInfo c)"
  by (simp add: mergeExtractedData_def mergeSource_def emptyData_def uniq_uniq_append)

text \<open>
  Claim C7.  For any three sources merged in the order structured data, meta tags,
  content, the merged services, products and team entries have no duplicates, and each
  is the list of first occurrences of the three sources' lists joined in that order:
  a value stays where it first occurred and later copies are dropped.  The lists stay
  free of duplicates through the cleaning step.
\<close>

theorem merge_arrays_stable_dedup:
  "distinct (services (mergeExtractedData [structured, meta, content]))
   \<and> distinct (products (mergeExtractedData [structured, meta, content]))
   \<and> distinct (teamInfo (mergeExtractedData [structured, meta, content]))
   \<and> services (mergeExtractedData [structured, meta, content])
       = firstOccurrences (services structured @ services meta @ services content)
   \<and> products (mergeExtractedData [structured, meta, content])
       = firstOccurrences (products structured @ products meta @ products content)
   \<and> teamInfo (mergeExtractedData [structured, meta, content])
       = firstOccurrences (teamInfo structured @ teamInfo meta @ teamInfo content)
   \<and> set (services (mergeExtractedData [structured, meta, content]))
       = set (services structured) \<union> set (services meta) \<union> set (services content)
   \<and> set (products (mergeExtractedData [structured, meta, content]))
       = set (products structured) \<union> set (products meta) \<union> set (products content)
   \<and> set (teamInfo (mergeExtractedData [structured, meta, content]))
       = set (teamInfo structured) \<union> set (teamInfo meta) \<union> set (teamInfo content)
   \<and> distinct (services (cleanExtractedData d))
   \<and> distinct (products (cleanExtractedData d))
   \<and> distinct (teamInfo (cleanExtractedData d))"
  unfolding merge3_services merge3_products merge3_teamInfo
  by (simp add: distinct_uniq set_uniq uniq_firstOccurrences [symmetric] Un_assoc
        cleanExtractedData_def Let_def)

theorem merge_arrays_stable_dedup_witness:
  "services (mergeExtractedData
      [emptyData\<lparr>services := [''Design'', ''Build'']\<rparr>,
       emptyData\<lparr>services := [''Build'', ''Run'']\<rparr>,
       emptyData\<lparr>services := [''Design'', ''Support'', ''Run'']\<rparr>])
     = [''Design'', ''Build'', ''Run'', ''Support'']
   \<and> firstOccurrences [''Design'', ''Build'', ''Build'', ''Run'', ''Design'', ''Support'', ''Run'']
     = [''Design'', ''Build'', ''Run'', ''Support'']
   \<and> distinct (services (mergeExtractedData
      [emptyData\<lparr>services := [''Design'', ''Build'']\<rparr>,
       emptyData\<lparr>services := [''Build'', ''Run'']\<rparr>,
       emptyData\<lparr>services := [''Design'', ''Support'', ''Run'']\<rparr>]))"
proof -
  have f: "firstOccurrences [''Design'', ''Build'', ''Build'', ''Run'', ''Design'', ''Support'', ''Run'']
     = [''Design'', ''Build'', ''Run'', ''Support'']"
    by code_simp
  have s: "services (emptyData\<lparr>services := [''Design'', ''Build'']\<rparr>)
             @ services (emptyData\<lparr>services := [''Build'', ''Run'']\<rparr>)
             @ services (emptyData\<lparr>services := [''Design'', ''Support'', ''Run'']\<rparr>)
           = [''Design'', ''Build'', ''Build'', ''Run'', ''Design'', ''Support'', ''Run'']"
    by simp
  show ?thesis
    using merge_arrays_stable_dedup
      [of "emptyData\<lparr>services := [''Design'', ''Build'']\<rparr>"
          "emptyData\<lparr>services := [''Build'', ''Run'']\<rparr>"
          "emptyData\<lparr>services := [''Design'', ''Support'', ''Run'']\<rparr>"]
    unfolding s f by simp
qed

section \<open>The denylist\<close>

lemma containsExcludedContent_iff:
  "containsExcludedContent s \<longleftrightarrow>
     (\<exists>t \<in> set EXCLUDED_CONTENT. \<exists>a b. toLowerCase s = a @ t @ b)"
  by (simp add: containsExcludedContent_def Let_def list_ex_iff str_includes_iff)

lemma clean_services_allowed:
  "s \<in> set (services (cleanExtractedData d)) \<Longrightarrow> \<not> containsExcludedContent s"
  by (simp add: cleanExtractedData_def Let_def)

lemma clean_products_allowed:
  "s \<in> set (products (cleanExtractedData d)) \<Longrightarrow> \<not> containsExcludedContent s"
  by (simp add: cleanExtractedData_def Let_def)

lemma bindE_Inr: "bindE m f = Inr y \<Longrightarrow> \<exists>x. m = Inr x \<and> f x = Inr y"
  by (cases m) (auto simp: bindE_def)

lemma extractData_is_cleaned:
  assumes "extractData sc = Inr p"
  shows "\<exists>st bt. extractFromStructuredData (jsonLd sc) = Inr st
           \<and> classifyBusinessType
                (mergeExtractedData [st, extractFromMetaTags (metaTags sc),
                   extractFromContent (textContent sc) (html sc)]) = Inr bt
           \<and> p = cleanExtractedData
                   ((mergeExtractedData [st, extractFromMetaTags (metaTags sc),
                        extractFromContent (textContent sc) (html sc)])
                    \<lparr>businessType := Some bt\<rparr>)"
proof -
  obtain st where st: "extractFromStructuredData (jsonLd sc) = Inr st"
    and r: "bindE (classifyBusinessType
                (mergeExtractedData [st, extractFromMetaTags (metaTags sc),
                   extractFromContent (textContent sc) (html sc)]))
              (\<lambda>businessType'. Inr (cleanExtractedData
                 ((mergeExtractedData [st, extractFromMetaTags (metaTags sc),
                     extractFromContent (textContent sc) (html sc)])
                  \<lparr>businessType := Some businessType'\<rparr>))) = (Inr p :: error + extracted_data)"
    using assms bindE_Inr [of "extractFromStructuredData (jsonLd sc)" _ p]
    unfolding extractData_def Let_def by auto
  obtain bt where bt: "classifyBusinessType
                (mergeExtractedData [st, extractFromMetaTags (metaTags sc),
                   extractFromContent (textContent sc) (html sc)]) = Inr bt"
    and q: "Inr (cleanExtractedData
                 ((mergeExtractedData [st, extractFromMetaTags (metaTags sc),
                     extractFromContent (textContent sc) (html sc)])
                  \<lparr>businessType := Some bt\<rparr>)) = (Inr p :: error + extracted_data)"
    using bindE_Inr [OF r] by auto
  from q have "p = cleanExtractedData
                 ((mergeExtractedData [st, extractFromMetaTags (metaTags sc),
                     extractFromContent (textContent sc) (html sc)])
                  \<lparr>businessType := Some bt\<rparr>)"
    by simp
  with st bt show ?thesis by blast
qed

lemma excluded_ex1: "services (cleanExtractedData (d\<lparr>services := [''Consulting'', ''Pricing Plans'', ''Support'']\<rparr>))
      = [''Consulting'', ''Support'']"
proof -
  have a: "containsExcludedContent ''Consulting'' = False" by code_simp
  have b: "containsExcludedContent ''Pricing Plans'' = True" by code_simp
  have c: "containsExcludedContent ''Support'' = False" by code_simp
  have u: "uniq [''Consulting'', ''Pricing Plans'', ''Support''] = [''Consulting'', ''Pricing Plans'', ''Support'']"
    by code_simp
  show ?thesis by (simp add: cleanExtractedData_def Let_def u a b c notEmpty_def)
qed

text \<open>
  Claim C3.  No service and no product of a cleaned profile contains a term of the
  denylist, in any mix of upper and lower case; this holds for whatever profile the
  cleaning step receives, so also for every profile that \<open>extractData\<close> returns, whether
  or not the extractors filtered before.  The services Consulting, Pricing Plans, Support
  become Consulting, Support.
\<close>

theorem final_services_products_pass_denylist:
  "(\<forall>s \<in> set (services (cleanExtractedData d)) \<union> set (products (cleanExtractedData d)).
      \<forall>t \<in> set [''pricing'', ''price'', ''cost'', ''fee'', ''payment'', ''credit card'',
                  ''api key'', ''password'', ''secret'', ''private'', ''confidential''].
        \<not> (\<exists>a b. toLowerCase s = a @ t @ b))
   \<and> (extractData sc = Inr p \<longrightarrow>
        (\<forall>s \<in> set (services p) \<union> set (products p).
           \<forall>t \<in> set [''pricing'', ''price'', ''cost'', ''fee'', ''payment'', ''credit card'',
                       ''api key'', ''password'', ''secret'', ''private'', ''confidential''].
             \<not> (\<exists>a b. toLowerCase s = a @ t @ b)))
   \<and> services (cleanExtractedData (d\<lparr>services := [''Consulting'', ''Pricing Plans'', ''Support'']\<rparr>))
      = [''Consulting'', ''Support'']"
proof -
  have terms: "[''pricing'', ''price'', ''cost'', ''fee'', ''payment'', ''credit card'',
                  ''api key'', ''password'', ''secret'', ''private'', ''confidential'']
        = EXCLUDED_CONTENT"
    by (simp add: EXCLUDED_CONTENT_def)
  have clean: "\<forall>s \<in> set (services (cleanExtractedData d')) \<union> set (products (cleanExtractedData d')).
      \<forall>t \<in> set EXCLUDED_CONTENT. \<not> (\<exists>a b. toLowerCase s = a @ t @ b)" for d'
    using clean_services_allowed [of _ d'] clean_products_allowed [of _ d']
      containsExcludedContent_iff by blast
  have pipeline: "extractData sc = Inr p \<longrightarrow>
        (\<forall>s \<in> set (services p) \<union> set (products p).
           \<forall>t \<in> set EXCLUDED_CONTENT. \<not> (\<exists>a b. toLowerCase s = a @ t @ b))"
  proof
    assume "extractData sc = Inr p"
    then obtain m where "p = cleanExtractedData m"
      using extractData_is_cleaned by blast
    then show "\<forall>s \<in> set (services p) \<union> set (products p).
           \<forall>t \<in> set EXCLUDED_CONTENT. \<not> (\<exists>a b. toLowerCase s = a @ t @ b)"
      using clean [of m] by simp
  qed
  show ?thesis unfolding terms using clean [of d] pipeline excluded_ex1 by blast
qed

theorem final_services_products_pass_denylist_witness:
  "map_sum id services (extractData servicesBundle) = Inr [''Consulting'', ''Support.'']
   \<and> \<not> (\<exists>a b. toLowerCase ''Consulting'' = a @ ''price'' @ b)
   \<and> \<not> (\<exists>a b. toLowerCase ''Support.'' = a @ ''cost'' @ b)"
proof -
  have run: "map_sum id services (extractData servicesBundle) = Inr [''Consulting'', ''Support.'']"
    by code_simp
  then obtain p where p: "extractData servicesBundle = Inr p"
    and sp: "services p = [''Consulting'', ''Support.'']"
    by (cases "extractData servicesBundle") auto
  have all: "\<forall>s \<in> set (services p) \<union> set (products p).
           \<forall>t \<in> set [''pricing'', ''price'', ''cost'', ''fee'', ''payment'', ''credit card'',
                       ''api key'', ''password'', ''secret'', ''private'', ''confidential''].
             \<not> (\<exists>a b. toLowerCase s = a @ t @ b)"
    using final_services_products_pass_denylist [of emptyData servicesBundle p] p by blast
  have "\<not> (\<exists>a b. toLowerCase ''Consulting'' = a @ ''price'' @ b)"
    using all sp by simp
  moreover have "\<not> (\<exists>a b. toLowerCase ''Support.'' = a @ ''cost'' @ b)"
    using all sp by simp
  ultimately show ?thesis using run by blast
qed

section \<open>Placeholders\<close>

lemma clean_companyName:
  "companyName (cleanExtractedData d)
     = (if \<not> truthyOpt (companyName d) then Some (JStr ''Company Name'') else companyName d)"
  by (simp add: cleanExtractedData_def Let_def)

lemma clean_description:
  "description (cleanExtractedData d)
     = (if \<not> truthyOpt (description d) then Some (JStr ''No description available.'')
        else description d)"
  by (simp add: cleanExtractedData_def Let_def)

lemma clean_has_name: "truthyOpt (companyName (cleanExtractedData d))"
  by (simp add: clean_companyName)

lemma clean_has_description: "truthyOpt (description (cleanExtractedData d))"
  by (simp add: clean_description)

lemma content_no_name:
  "companyName (extractFromContent t h) = None \<and> description (extractFromContent t h) = None"
  by (simp add: extractFromContent_def Let_def emptyData_def)

lemma mergeValue_None: "mergeValue old None = old"
  by (simp add: mergeValue_def)

lemma mergeValue_JStr: "mergeValue old (Some (JStr s)) = Some (JStr s)"
  by (simp add: mergeValue_def)

lemma merge3_companyName:
  "companyName (mergeExtractedData [a, b, c])
     = mergeValue (mergeValue (mergeValue None (companyName a)) (companyName b)) (companyName c)"
  by (simp add: mergeExtractedData_def mergeSource_def emptyData_def)

lemma merge3_description:
  "description (mergeExtractedData [a, b, c])
     = mergeValue (mergeValue (mergeValue None (description a)) (description b)) (description c)"
  by (simp add: mergeExtractedData_def mergeSource_def emptyData_def)

lemma merge3_tagline:
  "tagline (mergeExtractedData [a, b, c])
     = mergeValue (mergeValue (mergeValue None (tagline a)) (tagline b)) (tagline c)"
  by (simp add: mergeExtractedData_def mergeSource_def emptyData_def)

lemma meta_name_string:
  "companyName (extractFromMetaTags tags) = None
   \<or> (\<exists>s. companyName (extractFromMetaTags tags) = Some (JStr s))"
  by (cases "firstTruthy tags [''og:site_name'', ''application-name'', ''title'', ''og:title'']")
     (simp_all add: extractFromMetaTags_def Let_def emptyData_def)

lemma meta_description_string:
  "description (extractFromMetaTags tags) = None
   \<or> (\<exists>s. description (extractFromMetaTags tags) = Some (JStr s))"
  by (cases "firstTruthy tags [''description'', ''og:description'', ''twitter:description'']")
     (simp_all add: extractFromMetaTags_def Let_def emptyData_def)

lemma score_name:
  "calculateQualityScore (d\<lparr>companyName := x\<rparr>)
     = calculateQualityScore (d\<lparr>companyName := None\<rparr>)
       + (if truthyOpt x \<and> x \<noteq> Some (JStr ''Company Name'') then 10 else 0)"
  unfolding score_eq_sum contributions_def
  by (simp split del: if_split)

lemma score_description:
  "calculateQualityScore (d\<lparr>description := x\<rparr>)
     = calculateQualityScore (d\<lparr>description := None\<rparr>)
       + (if truthyOpt x \<and> x \<noteq> Some (JStr ''No description available.'') then 10 else 0)"
  unfolding score_eq_sum contributions_def
  by (simp split del: if_split)

text \<open>
  Claim C9 asks that every profile \<open>extractData\<close> returns has a company name and a
  description that are set and non-empty, the placeholders when no source contributes
  them.  The structured-data extractor takes the name of an organisation record as it
  is whenever it is truthy (\<open>jsonLd.name || extracted.companyName\<close> on a record of the
  type \<open>any\<close>), the merge assigns it, and the cleaning step puts the placeholder only
  where the name is not truthy.  An empty list is truthy.  For a page whose only record
  is an organisation with the name \<open>[]\<close> the returned profile has the empty list as its
  name: not a non-empty name, and not the placeholder either.  The scorer gives the 10
  points of the name for it: the page scores 30, the 20 points of the record and these
  10.
\<close>

theorem empty_list_name_kept_and_scored:
  "map_sum id companyName (extractFromStructuredData (jsonLd emptyNameBundle)) = Inr (Some (JArr []))
   \<and> map_sum id companyName (extractData emptyNameBundle) = Inr (Some (JArr []))
   \<and> map_sum id description (extractData emptyNameBundle)
       = Inr (Some (JStr ''No description available.''))
   \<and> map_sum id calculateQualityScore (extractData emptyNameBundle) = Inr 30
   \<and> calculateQualityScore (emptyData\<lparr>companyName := Some (JArr [])\<rparr>) = 10"
  by code_simp

section \<open>Classification\<close>

lemma fold_count:
  "fold (\<lambda>k (n::nat). if P k then n + 1 else n) ks m = m + length (filter P ks)"
  by (induction ks arbitrary: m) auto

lemma keywordScore_count:
  "keywordScore txt ks = length (filter (\<lambda>k. str_includes txt k) ks)"
  by (simp add: keywordScore_def fold_count)

lemma classifyText_cases:
  "(classifyText txt = Catalog \<longleftrightarrow>
      keywordScore txt KEYWORDS_specialist \<le> keywordScore txt KEYWORDS_catalog
      \<and> keywordScore txt KEYWORDS_ecosystem \<le> keywordScore txt KEYWORDS_catalog)
   \<and> (classifyText txt = Ecosystem \<longleftrightarrow>
      keywordScore txt KEYWORDS_catalog < keywordScore txt KEYWORDS_ecosystem
      \<and> keywordScore txt KEYWORDS_specialist \<le> keywordScore txt KEYWORDS_ecosystem)
   \<and> (classifyText txt = Specialist \<longleftrightarrow>
      keywordScore txt KEYWORDS_catalog < keywordScore txt KEYWORDS_specialist
      \<and> keywordScore txt KEYWORDS_ecosystem < keywordScore txt KEYWORDS_specialist)"
  by (auto simp: classifyText_def Let_def)

lemma allText_strings:
  "allText (d\<lparr>companyName := map_option JStr n, description := map_option JStr ds,
              tagline := map_option JStr tg\<rparr>)
     = Inr (toLowerCase
         (join '' ''
            ([case_option [] (\<lambda>s. s) n, case_option [] (\<lambda>s. s) ds, case_option [] (\<lambda>s. s) tg]
             @ services d @ products d)))"
  by (cases n; cases ds; cases tg) (simp_all add: allText_def joinedItem_def bindE_def)

text \<open>
  Claim C6, as amended.  The archetype depends on the lower-cased text of the profile
  only.  The count of an archetype is the number of its keywords that occur in the text,
  each keyword counted once.  The result is catalog exactly when the catalog count is at
  least both others, ecosystem exactly when the ecosystem count exceeds the catalog count
  and is at least the specialist count, and specialist exactly when the specialist count
  exceeds both others: ties go to catalog first and to ecosystem second, and specialist
  is returned only when it leads outright.  The text is the name, the description, the
  tagline, the services and the products joined by spaces, in lower case; for a profile
  whose name, description and tagline are strings or absent it always exists, and there
  is no archetype only when it does not.
\<close>

theorem classifyBusinessType_highest_count_ties:
  "(allText d = allText d' \<longrightarrow> classifyBusinessType d = classifyBusinessType d')
   \<and> keywordScore txt ks = length (filter (\<lambda>k. \<exists>a b. txt = a @ k @ b) ks)
   \<and> keywordScore txt ks \<le> length ks
   \<and> (classifyBusinessType d = Inr Catalog \<longleftrightarrow>
        (\<exists>t. allText d = Inr t
           \<and> keywordScore t KEYWORDS_specialist \<le> keywordScore t KEYWORDS_catalog
           \<and> keywordScore t KEYWORDS_ecosystem \<le> keywordScore t KEYWORDS_catalog))
   \<and> (classifyBusinessType d = Inr Ecosystem \<longleftrightarrow>
        (\<exists>t. allText d = Inr t
           \<and> keywordScore t KEYWORDS_catalog < keywordScore t KEYWORDS_ecosystem
           \<and> keywordScore t KEYWORDS_specialist \<le> keywordScore t KEYWORDS_ecosystem))
   \<and> (classifyBusinessType d = Inr Specialist \<longleftrightarrow>
        (\<exists>t. allText d = Inr t
           \<and> keywordScore t KEYWORDS_catalog < keywordScore t KEYWORDS_specialist
           \<and> keywordScore t KEYWORDS_ecosystem < keywordScore t KEYWORDS_specialist))
   \<and> allText (d\<lparr>companyName := map_option JStr n, description := map_option JStr ds,
                 tagline := map_option JStr tg\<rparr>)
       = Inr (toLowerCase
           (join '' ''
              ([case_option [] (\<lambda>s. s) n, case_option [] (\<lambda>s. s) ds, case_option [] (\<lambda>s. s) tg]
               @ services d @ products d)))"
proof -
  have det: "allText d = allText d' \<longrightarrow> classifyBusinessType d = classifyBusinessType d'"
    by (simp add: classifyBusinessType_def)
  have cnt: "keywordScore txt ks = length (filter (\<lambda>k. \<exists>a b. txt = a @ k @ b) ks)"
    by (simp add: keywordScore_count str_includes_iff)
  have le: "keywordScore txt ks \<le> length ks"
    by (simp add: keywordScore_count)
  have cls: "(classifyBusinessType d = Inr Catalog \<longleftrightarrow>
        (\<exists>t. allText d = Inr t
           \<and> keywordScore t KEYWORDS_specialist \<le> keywordScore t KEYWORDS_catalog
           \<and> keywordScore t KEYWORDS_ecosystem \<le> keywordScore t KEYWORDS_catalog))
   \<and> (classifyBusinessType d = Inr Ecosystem \<longleftrightarrow>
        (\<exists>t. allText d = Inr t
           \<and> keywordScore t KEYWORDS_catalog < keywordScore t KEYWORDS_ecosystem
           \<and> keywordScore t KEYWORDS_specialist \<le> keywordScore t KEYWORDS_ecosystem))
   \<and> (classifyBusinessType d = Inr Specialist \<longleftrightarrow>
        (\<exists>t. allText d = Inr t
           \<and> keywordScore t KEYWORDS_catalog < keywordScore t KEYWORDS_specialist
           \<and> keywordScore t KEYWORDS_ecosystem < keywordScore t KEYWORDS_specialist))"
  proof (cases "allText d")
    case (Inl e)
    then have "classifyBusinessType d = Inl e"
      by (simp add: classifyBusinessType_def bindE_def)
    then show ?thesis using Inl by simp
  next
    case (Inr t)
    then have c: "classifyBusinessType d = Inr (classifyText t)"
      by (simp add: classifyBusinessType_def bindE_def)
    show ?thesis unfolding c Inr using classifyText_cases [of t] by simp
  qed
  show ?thesis
    using det cnt le cls allText_strings [where d = d and n = n and ds = ds and tg = tg]
    by blast
qed

theorem classifyBusinessType_highest_count_ties_witness:
  "allText agencyProfile = Inr '' a consulting agency of experts ''
   \<and> classifyBusinessType agencyProfile = Inr Specialist
   \<and> keywordScore '' a consulting agency of experts '' KEYWORDS_specialist = 2
   \<and> keywordScore '' a consulting agency of experts '' KEYWORDS_catalog = 0
   \<and> keywordScore '' a consulting agency of experts '' KEYWORDS_ecosystem = 0
   \<and> classifyBusinessType agencyProfile
       = classifyBusinessType (agencyProfile\<lparr>mission := Some ''To serve''\<rparr>)"
proof -
  have a: "allText agencyProfile = Inr '' a consulting agency of experts ''" by code_simp
  have s: "keywordScore '' a consulting agency of experts '' KEYWORDS_specialist = 2" by code_simp
  have c: "keywordScore '' a consulting agency of experts '' KEYWORDS_catalog = 0" by code_simp
  have e: "keywordScore '' a consulting agency of experts '' KEYWORDS_ecosystem = 0" by code_simp
  have t: "allText agencyProfile = allText (agencyProfile\<lparr>mission := Some ''To serve''\<rparr>)"
    by (simp add: allText_def)
  have spec: "classifyBusinessType agencyProfile = Inr Specialist"
    using classifyBusinessType_highest_count_ties
            [of agencyProfile "agencyProfile\<lparr>mission := Some ''To serve''\<rparr>"
               "[]" "[]" None None None] a s c e
    by simp
  have same: "classifyBusinessType agencyProfile
       = classifyBusinessType (agencyProfile\<lparr>mission := Some ''To serve''\<rparr>)"
    using classifyBusinessType_highest_count_ties
            [of agencyProfile "agencyProfile\<lparr>mission := Some ''To serve''\<rparr>"
               "[]" "[]" None None None] t
    by blast
  show ?thesis using a spec s c e same by blast
qed

text \<open>
  The claim as stated has specialist as the result when no archetype leads outright.
  On a profile without any text all three counts are 0 and the result is catalog; the
  pipeline classifies an empty page so.
\<close>

theorem classifyBusinessType_tie_counterexample:
  "allText emptyData = Inr ''  ''
   \<and> keywordScore ''  '' KEYWORDS_catalog = 0
   \<and> keywordScore ''  '' KEYWORDS_specialist = 0
   \<and> keywordScore ''  '' KEYWORDS_ecosystem = 0
   \<and> classifyBusinessType emptyData = Inr Catalog
   \<and> classifyBusinessType emptyData \<noteq> Inr Specialist
   \<and> map_sum id businessType (extractData emptyBundle) = Inr (Some Catalog)"
proof -
  have t: "allText emptyData = Inr ''  ''" by code_simp
  have a: "keywordScore ''  '' KEYWORDS_catalog = 0" by code_simp
  have b: "keywordScore ''  '' KEYWORDS_specialist = 0" by code_simp
  have c: "keywordScore ''  '' KEYWORDS_ecosystem = 0" by code_simp
  have d: "classifyBusinessType emptyData = Inr Catalog" by code_simp
  have e: "map_sum id businessType (extractData emptyBundle) = Inr (Some Catalog)" by code_simp
  show ?thesis using t a b c d e by simp
qed

section \<open>The contact email\<close>

lemma rests_Cls:
  assumes "t \<in> set (rests (Cls p lo hi) s)"
  shows "\<exists>w. s = w @ t \<and> lo \<le> length w \<and> list_all p w
           \<and> (case hi of None \<Rightarrow> True | Some h \<Rightarrow> length w \<le> h)"
proof -
  let ?n = "length (takeWhile p s)"
  let ?m = "case hi of None \<Rightarrow> ?n | Some h \<Rightarrow> min h ?n"
  from assms obtain k where k: "lo \<le> k" "k \<le> ?m" "t = drop k s"
    by (auto simp: Let_def)
  have kn: "k \<le> ?n" using k(2) by (cases hi) auto
  have "take k s = take k (takeWhile p s @ dropWhile p s)" by simp
  also have "\<dots> = take k (takeWhile p s)" using kn by (simp del: takeWhile_dropWhile_id)
  finally have tk: "take k s = take k (takeWhile p s)" .
  have "set (take k s) \<subseteq> set (takeWhile p s)" unfolding tk by (rule set_take_subset)
  then have all: "list_all p (take k s)"
    by (auto simp: list_all_iff dest: set_takeWhileD)
  have len: "length (take k s) = k"
    using kn length_takeWhile_le [of p s] by simp
  have hi: "(case hi of None \<Rightarrow> True | Some h \<Rightarrow> length (take k s) \<le> h)"
    using k(2) len by (cases hi) auto
  have "s = take k s @ t" using k(3) by simp
  then show ?thesis using all len hi k(1) by metis
qed

lemma rests_Seq: "t \<in> set (rests (Seq a b) s) \<longleftrightarrow> (\<exists>u \<in> set (rests a s). t \<in> set (rests b u))"
  by auto

lemma rests_chr:
  assumes "t \<in> set (rests (chr c) s)"
  shows "s = c # t"
proof -
  from rests_Cls [OF assms [unfolded chr_def]]
  obtain w where w: "s = w @ t" "1 \<le> length w" "list_all (\<lambda>x. x = c) w" "length w \<le> 1"
    by auto
  then obtain x where "w = [x]" by (cases w) auto
  then show ?thesis using w by simp
qed

lemma rests_EMAIL:
  assumes "t \<in> set (rests RE_EMAIL s)"
  shows "\<exists>m. s = m @ t \<and> emailShaped m"
proof -
  from assms obtain u1 u2 u3 u4 where
    a: "u1 \<in> set (rests (Cls (\<lambda>c. isAlpha c \<or> isDigit c \<or> c \<in> set ''._%+-'') 1 None) s)"
    and b: "u2 \<in> set (rests (chr CHR ''@'') u1)"
    and c: "u3 \<in> set (rests (Cls (\<lambda>c. isAlpha c \<or> isDigit c \<or> c \<in> set ''.-'') 1 None) u2)"
    and d: "u4 \<in> set (rests (chr CHR ''.'') u3)"
    and e: "t \<in> set (rests (Cls isAlpha 2 None) u4)"
    unfolding RE_EMAIL_def seqs_def foldr.simps o_apply rests_Seq rests.simps(5) by auto
  from rests_Cls [OF a] obtain l where l: "s = l @ u1" "1 \<le> length l" "list_all isLocalChar l"
    by (auto simp: isLocalChar_def [abs_def])
  from rests_Cls [OF c] obtain dm where dm: "u2 = dm @ u3" "1 \<le> length dm" "list_all isDomainChar dm"
    by (auto simp: isDomainChar_def [abs_def])
  from rests_Cls [OF e] obtain tl where tl: "u4 = tl @ t" "2 \<le> length tl" "list_all isAlpha tl"
    by auto
  have "s = (l @ ''@'' @ dm @ ''.'' @ tl) @ t"
    using l(1) dm(1) tl(1) rests_chr [OF b] rests_chr [OF d] by simp
  moreover have "emailShaped (l @ ''@'' @ dm @ ''.'' @ tl)"
    unfolding emailShaped_def using l dm tl by (intro exI [of _ l] exI [of _ dm] exI [of _ tl]) auto
  ultimately show ?thesis by blast
qed

lemma matchAt_EMAIL:
  assumes "matchAt RE_EMAIL s = Some (m, t)"
  shows "s = m @ t \<and> emailShaped m"
proof -
  from assms obtain ts where r: "rests RE_EMAIL s = t # ts" and m: "m = take (length s - length t) s"
    by (auto simp: matchAt_def split: list.splits)
  then have "t \<in> set (rests RE_EMAIL s)" by simp
  from rests_EMAIL [OF this] obtain m' where m': "s = m' @ t" "emailShaped m'" by blast
  then have "m = m'" using m by simp
  then show ?thesis using m' by simp
qed

lemma matchAll_elems:
  assumes "\<And>s m t. matchAt r s = Some (m, t) \<Longrightarrow> s = m @ t \<and> P m"
    and "m \<in> set (matchAll r k s)"
  shows "P m \<and> (\<exists>a b. s = a @ m @ b)"
  using assms
proof (induction r k s rule: matchAll.induct)
  case (1 r k)
  from "1.prems"(2) obtain t where "matchAt r [] = Some (m, t)"
    by (cases "k = 0"; cases "matchAt r []") auto
  then have "[] = m @ t \<and> P m" using "1.prems"(1) by blast
  then have "P m" and "[] = [] @ m @ []" by auto
  then show ?case by blast
next
  case (2 r k c cs)
  note good = "2.prems"(1)
  show ?case
  proof (cases "0 < k")
    case True
    then have "m \<in> set (matchAll r (k - 1) cs)" using "2.prems"(2) by simp
    then have "P m \<and> (\<exists>a b. cs = a @ m @ b)" using "2.IH"(1) [OF True] good by blast
    then obtain a b where "P m" "cs = a @ m @ b" by blast
    then have "c # cs = (c # a) @ m @ b" by simp
    then show ?thesis using \<open>P m\<close> by blast
  next
    case False
    show ?thesis
    proof (cases "matchAt r (c # cs)")
      case None
      then have "m \<in> set (matchAll r 0 cs)" using "2.prems"(2) False by simp
      then have "P m \<and> (\<exists>a b. cs = a @ m @ b)" using "2.IH"(2) [OF False None] good by blast
      then obtain a b where "P m" "cs = a @ m @ b" by blast
      then have "c # cs = (c # a) @ m @ b" by simp
      then show ?thesis using \<open>P m\<close> by blast
    next
      case (Some mt)
      obtain m0 t where mt: "mt = (m0, t)" by (cases mt)
      have sh: "c # cs = m0 @ t \<and> P m0" using good Some mt by blast
      from "2.prems"(2) False Some mt
      consider "m = m0" | "m \<in> set (matchAll r (length m0 - 1) cs)" by auto
      then show ?thesis
      proof cases
        case 1
        have "c # cs = [] @ m0 @ t" using sh by simp
        then show ?thesis using 1 sh by blast
      next
        case 2
        have "P m \<and> (\<exists>a b. cs = a @ m @ b)"
          using "2.IH"(3) [OF False Some mt [symmetric] good 2] by blast
        then obtain a b where "P m" "cs = a @ m @ b" by blast
        then have "c # cs = (c # a) @ m @ b" by simp
        then show ?thesis using \<open>P m\<close> by blast
      qed
    qed
  qed
qed

lemma matchAll_EMAIL:
  "m \<in> set (matchAll RE_EMAIL k s) \<Longrightarrow> emailShaped m \<and> (\<exists>a b. s = a @ m @ b)"
  using matchAll_elems [of RE_EMAIL emailShaped m k s] matchAt_EMAIL by blast


lemma firstSlot_filter_Value:
  "firstSlot (filter P xs) = Value (JStr e) \<longleftrightarrow>
     (\<exists>us vs. xs = us @ e # vs \<and> (\<forall>u \<in> set us. \<not> P u) \<and> P e)"
proof
  assume "firstSlot (filter P xs) = Value (JStr e)"
  then obtain rest where "filter P xs = e # rest"
    by (auto simp: firstSlot_def split: list.splits)
  then show "\<exists>us vs. xs = us @ e # vs \<and> (\<forall>u \<in> set us. \<not> P u) \<and> P e"
    unfolding filter_eq_Cons_iff by blast
next
  assume "\<exists>us vs. xs = us @ e # vs \<and> (\<forall>u \<in> set us. \<not> P u) \<and> P e"
  then obtain us vs where x: "xs = us @ e # vs" "\<forall>u \<in> set us. \<not> P u" "P e" by blast
  have "filter P us = []" using x(2) by (simp add: filter_empty_conv)
  then have "filter P xs = e # filter P vs" using x(1) x(3) by simp
  then show "firstSlot (filter P xs) = Value (JStr e)" by (simp add: firstSlot_def)
qed

lemma firstSlot_filter_Missing:
  "firstSlot (filter P xs) = Missing \<longleftrightarrow> (\<forall>x \<in> set xs. \<not> P x)"
proof -
  have "firstSlot (filter P xs) = Missing \<longleftrightarrow> filter P xs = []"
    by (cases "filter P xs") (simp_all add: firstSlot_def)
  then show ?thesis by (simp add: filter_empty_conv)
qed

lemma content_email:
  "email (contactInfo (extractFromContent text markup))
     = firstSlot (filter isContactEmail (matchAll RE_EMAIL 0 text))"
  by (simp add: extractFromContent_def Let_def)

text \<open>
  Claim C8 asks that the contact email the text extractor sets has a domain that is not
  consumer webmail and a local part that contains one of contact, info, support, sales,
  and that no address whose local part lacks all four is ever selected.  The filter
  looks for the four substrings with \<open>email.includes\<close> in the whole address.  The
  address \<open>john@infosys.com\<close> is selected although its local part \<open>john\<close> contains none
  of them: \<open>info\<close> occurs in the domain.  The test for webmail looks for \<open>@gmail.\<close>,
  \<open>@yahoo.\<close> and \<open>@hotmail.\<close> as they are written: \<open>info@Gmail.com\<close> is selected.
\<close>

theorem email_with_keyword_in_domain_selected:
  "email (contactInfo (extractFromContent ''Write to john@infosys.com today'' []))
     = Value (JStr ''john@infosys.com'')
   \<and> \<not> str_includes ''john'' ''contact'' \<and> \<not> str_includes ''john'' ''info''
   \<and> \<not> str_includes ''john'' ''support'' \<and> \<not> str_includes ''john'' ''sales''
   \<and> email (contactInfo (extractFromContent ''Ask info@Gmail.com'' []))
     = Value (JStr ''info@Gmail.com'')"
  by code_simp

section \<open>Priority of the sources\<close>

text \<open>
  Claim C1 asks that a scalar field set by the structured data keeps that value in the
  merged profile.  The merge assigns the sources in the order structured data, meta
  tags, content, and each later value replaces the earlier one.  On the example of the
  specification the structured data give the name \<open>Acme Corp - Official\<close>, the meta tag
  gives \<open>Acme\<close>, and the profile that \<open>extractData\<close> returns has the name \<open>Acme\<close>; the
  social media entry is the expected one.
\<close>

theorem structured_name_overwritten_by_meta:
  "map_sum id companyName (extractFromStructuredData (jsonLd acmeBundle))
     = Inr (Some (JStr ''Acme Corp - Official''))
   \<and> companyName (extractFromMetaTags (metaTags acmeBundle)) = Some (JStr ''Acme'')
   \<and> map_sum id companyName (extractData acmeBundle) = Inr (Some (JStr ''Acme''))
   \<and> map_sum id (\<lambda>p. socialMedia (contactInfo p)) (extractData acmeBundle)
       = Inr (Value [(''facebook'', JStr ''https://facebook.com/acme'')])"
  by code_simp

section \<open>Malformed records\<close>

text \<open>
  Claim C2 asks that the structured-data extractor never throws.  It throws a
  \<open>TypeError\<close> on an organisation whose \<open>contactPoint\<close> is an empty list (the property
  \<open>email\<close> of its missing first element is read), on a \<open>founder\<close> that is a single
  object (it is spread as if it were a list), and on a catalogue whose
  \<open>itemListElement\<close> is an object (it has no \<open>forEach\<close>).  The exception ends the loop:
  a well-formed record after the malformed one is not processed.
\<close>

theorem malformed_records_throw:
  "extractFromStructuredData
      [JObj [(''@type'', JStr ''Organization''), (''contactPoint'', JArr [])]] = Inl TypeError
   \<and> extractFromStructuredData
      [JObj [(''founder'', JObj [(''name'', JStr ''Ann'')])]] = Inl TypeError
   \<and> extractFromStructuredData
      [JObj [(''hasOfferCatalog'', JObj [(''itemListElement'', JObj [(''name'', JStr ''Audit'')])])]]
       = Inl TypeError
   \<and> extractFromStructuredData
      [JObj [(''@type'', JStr ''Organization''), (''contactPoint'', JArr [])],
       JObj [(''@type'', JStr ''Organization''), (''name'', JStr ''Acme'')]] = Inl TypeError"
  by code_simp

section \<open>The score threshold of the generation endpoint\<close>

text \<open>
  Claim C5 asks that a request with a quality score below 20 is rejected and the
  generator is not called.  The handler tests \<open>qualityScore && qualityScore < 20\<close>, and
  0 is not truthy: with the score 0, which is what an empty page scores, and an API key
  configured, the generator is called.  With the score 19 it is not.
\<close>

theorem score_zero_reaches_generator:
  "map_sum id calculateQualityScore (extractData emptyBundle) = Inr 0
   \<and> generatorCalled
        (POST_generate (Some ''configured'') generateLLMSText validateGeneratedContent
           (Some \<lparr>extractedData = d, sourceUrl = u, qualityScore = Some 0\<rparr>))
   \<and> \<not> generatorCalled
        (POST_generate (Some ''configured'') generateLLMSText validateGeneratedContent
           (Some \<lparr>extractedData = d, sourceUrl = u, qualityScore = Some 19\<rparr>))"
proof -
  have z: "map_sum id calculateQualityScore (extractData emptyBundle) = Inr 0"
    by code_simp
  have k: "truthyStr (Some ''configured'')" by (simp add: truthyStr_def)
  have a: "generatorCalled
        (POST_generate (Some ''configured'') generateLLMSText validateGeneratedContent
           (Some \<lparr>extractedData = d, sourceUrl = u, qualityScore = Some 0\<rparr>))"
    using k by (simp add: POST_generate_def split: sum.splits)
  have b: "\<not> generatorCalled
        (POST_generate (Some ''configured'') generateLLMSText validateGeneratedContent
           (Some \<lparr>extractedData = d, sourceUrl = u, qualityScore = Some 19\<rparr>))"
    by (simp add: POST_generate_def)
  show ?thesis using z a b by blast
qed

section \<open>Further properties of the code\<close>

text \<open>
  Extra X1.  In the merge of three sources whose names, descriptions and taglines are
  strings, every scalar field (name, description, tagline, mission) has the value of
  the last source, in the order of the call, that sets it.
\<close>

theorem merge_scalar_last_source_wins:
  "companyName (mergeExtractedData
       [a\<lparr>companyName := map_option JStr x\<rparr>, b\<lparr>companyName := map_option JStr y\<rparr>,
        c\<lparr>companyName := map_option JStr z\<rparr>])
     = map_option JStr
         (case z of Some v \<Rightarrow> Some v | None \<Rightarrow> (case y of Some v \<Rightarrow> Some v | None \<Rightarrow> x))
   \<and> description (mergeExtractedData
       [a\<lparr>description := map_option JStr x\<rparr>, b\<lparr>description := map_option JStr y\<rparr>,
        c\<lparr>description := map_option JStr z\<rparr>])
     = map_option JStr
         (case z of Some v \<Rightarrow> Some v | None \<Rightarrow> (case y of Some v \<Rightarrow> Some v | None \<Rightarrow> x))
   \<and> tagline (mergeExtractedData
       [a\<lparr>tagline := map_option JStr x\<rparr>, b\<lparr>tagline := map_option JStr y\<rparr>,
        c\<lparr>tagline := map_option JStr z\<rparr>])
     = map_option JStr
         (case z of Some v \<Rightarrow> Some v | None \<Rightarrow> (case y of Some v \<Rightarrow> Some v | None \<Rightarrow> x))
   \<and> mission (mergeExtractedData [a, b, c])
     = (case mission c of Some v \<Rightarrow> Some v
        | None \<Rightarrow> (case mission b of Some v \<Rightarrow> Some v | None \<Rightarrow> mission a))"
proof -
  have m: "mergeValue (mergeValue (mergeValue None (map_option JStr x)) (map_option JStr y))
             (map_option JStr z)
           = map_option JStr
               (case z of Some v \<Rightarrow> Some v | None \<Rightarrow> (case y of Some v \<Rightarrow> Some v | None \<Rightarrow> x))"
    by (cases x; cases y; cases z) (simp_all add: mergeValue_None mergeValue_JStr)
  have ms: "mission (mergeExtractedData [a, b, c])
     = (case mission c of Some v \<Rightarrow> Some v
        | None \<Rightarrow> (case mission b of Some v \<Rightarrow> Some v | None \<Rightarrow> mission a))"
    by (simp add: mergeExtractedData_def mergeSource_def emptyData_def assign_def
          split: option.splits)
  show ?thesis
    unfolding merge3_companyName merge3_description merge3_tagline using m ms by simp
qed

text \<open>
  Extra X2.  The same holds inside the contact record: a key that a later source has
  replaces the key of an earlier one.  An email found in the page text replaces the
  email of the organisation's contact point.
\<close>

theorem merge_contact_later_key_wins:
  "email (contactInfo (mergeExtractedData [a, b, c]))
     = (case email (contactInfo c) of
          Missing \<Rightarrow> (case email (contactInfo b) of
                        Missing \<Rightarrow> email (contactInfo a)
                      | Undefined \<Rightarrow> Undefined | Value v \<Rightarrow> Value v)
        | Undefined \<Rightarrow> Undefined | Value v \<Rightarrow> Value v)
   \<and> map_sum id (\<lambda>p. email (contactInfo p))
        (extractData
          \<lparr>html = [], textContent = ''Write to info@acme.com'', metaTags = (\<lambda>k. None),
           jsonLd = [JObj [(''@type'', JStr ''Organization''),
                           (''contactPoint'', JObj [(''email'', JStr ''press@acme.com'')])]],
           finalUrl = ''https://acme.com/''\<rparr>)
       = Inr (Value (JStr ''info@acme.com''))"
proof -
  have a: "email (contactInfo (mergeExtractedData [a, b, c]))
     = (case email (contactInfo c) of
          Missing \<Rightarrow> (case email (contactInfo b) of
                        Missing \<Rightarrow> email (contactInfo a)
                      | Undefined \<Rightarrow> Undefined | Value v \<Rightarrow> Value v)
        | Undefined \<Rightarrow> Undefined | Value v \<Rightarrow> Value v)"
    by (simp add: mergeExtractedData_def mergeSource_def emptyData_def emptyContact_def
          spreadContact_def spreadSlot_def split: slot.splits)
  have b: "map_sum id (\<lambda>p. email (contactInfo p))
        (extractData
          \<lparr>html = [], textContent = ''Write to info@acme.com'', metaTags = (\<lambda>k. None),
           jsonLd = [JObj [(''@type'', JStr ''Organization''),
                           (''contactPoint'', JObj [(''email'', JStr ''press@acme.com'')])]],
           finalUrl = ''https://acme.com/''\<rparr>)
       = Inr (Value (JStr ''info@acme.com''))"
    by code_simp
  show ?thesis using a b by blast
qed

text \<open>
  Extra X3.  The text extractor on examples: the mission sentence of the specification
  is captured with its final period; a list of services after \<open>What we do\<close> is split at
  commas and semicolons and loses the entry about pricing; the first phone number is
  taken as it stands; a link whose target mentions \<open>docs\<close> sets the API documentation
  flag.
\<close>

theorem text_extractor_examples:
  "mission (extractFromContent ''Our mission: To deliver excellence in logistics.'' [])
     = Some ''To deliver excellence in logistics.''
   \<and> services (extractFromContent ''What we do: Consulting, Pricing Plans; Support.'' [])
     = [''Consulting'', ''Support.'']
   \<and> phone (contactInfo (extractFromContent ''Call (555) 123-4567 now'' []))
     = Value (JStr ''(555) 123-4567'')
   \<and> apiDocs (extractFromContent [] (''<a href='' @ [CHR 0x22] @ ''/docs'' @ [CHR 0x22] @ ''>Docs</a>''))
     = Some ''API documentation available''"
  by code_simp

text \<open>
  Extra X4.  The scores of the specification's examples: a profile with a name only
  scores 10; a page with one organisation record with name and description and nothing
  else scores 10 + 10 + 20 = 40; the profile of the Acme example (no description, one
  social media entry, one record) scores 35.
\<close>

theorem score_examples:
  "calculateQualityScore (emptyData\<lparr>companyName := Some (JStr ''Acme'')\<rparr>) = 10
   \<and> map_sum id calculateQualityScore (extractData orgBundle) = Inr 40
   \<and> map_sum id calculateQualityScore (extractData acmeBundle) = Inr 35"
  by code_simp

text \<open>
  Extra X5.  A request whose quality score is not 0 and below 20 is answered with the
  status 400 and the generator is not called.
\<close>

theorem generate_rejects_scores_1_to_19:
  "qualityScore req = Some q \<Longrightarrow> q \<noteq> 0 \<Longrightarrow> q < 20 \<Longrightarrow>
     POST_generate key gen valid (Some req)
       = \<lparr>status = 400, success = False, generatorCalled = False\<rparr>"
  by (simp add: POST_generate_def)

theorem generate_rejects_scores_1_to_19_witness:
  "POST_generate (Some ''configured'') (\<lambda>d u. Inr ''text'') (\<lambda>c. True)
      (Some \<lparr>extractedData = emptyData, sourceUrl = ''https://example.com/'', qualityScore = Some 10\<rparr>)
     = \<lparr>status = 400, success = False, generatorCalled = False\<rparr>"
  using generate_rejects_scores_1_to_19
    [of "\<lparr>extractedData = emptyData, sourceUrl = ''https://example.com/'', qualityScore = Some 10\<rparr>"
        10 "Some ''configured''" "\<lambda>d u. Inr ''text''" "\<lambda>c. True"]
  by simp

text \<open>
  Extra X6.  The text extractor sets a contact email exactly when some match of the
  email pattern passes the filter, and the email is then the first such match in the
  list of matches.  The matches are taken from left to right and do not overlap; every
  match is an email-shaped token that occurs in the text.  A match passes the filter
  when it contains none of \<open>@gmail.\<close>, \<open>@yahoo.\<close>, \<open>@hotmail.\<close> and contains one of
  contact, info, support, sales anywhere in the address, in the local part or in the
  domain.  An address inside an earlier match is not a match of its own: in
  \<open>x@gmail.com.support@acme.com sales@corp.org\<close> the first match is
  \<open>x@gmail.com.support\<close>, and the email is \<open>sales@corp.org\<close>.
\<close>

theorem email_first_match_with_keyword_anywhere:
  "(email (contactInfo (extractFromContent text markup)) = Value (JStr e) \<longleftrightarrow>
      (\<exists>us vs. matchAll RE_EMAIL 0 text = us @ e # vs
         \<and> (\<forall>u \<in> set us. \<not> isContactEmail u) \<and> isContactEmail e))
   \<and> (email (contactInfo (extractFromContent text markup)) = Missing \<longleftrightarrow>
        (\<forall>m \<in> set (matchAll RE_EMAIL 0 text). \<not> isContactEmail m))
   \<and> (\<forall>m \<in> set (matchAll RE_EMAIL 0 text). emailShaped m \<and> (\<exists>a b. text = a @ m @ b))
   \<and> (isContactEmail e \<longleftrightarrow>
        \<not> (\<exists>a b. e = a @ ''@gmail.'' @ b) \<and> \<not> (\<exists>a b. e = a @ ''@yahoo.'' @ b)
        \<and> \<not> (\<exists>a b. e = a @ ''@hotmail.'' @ b)
        \<and> ((\<exists>a b. e = a @ ''contact'' @ b) \<or> (\<exists>a b. e = a @ ''info'' @ b)
            \<or> (\<exists>a b. e = a @ ''support'' @ b) \<or> (\<exists>a b. e = a @ ''sales'' @ b)))
   \<and> matchAll RE_EMAIL 0 ''x@gmail.com.support@acme.com sales@corp.org''
       = [''x@gmail.com.support'', ''sales@corp.org'']
   \<and> email (contactInfo (extractFromContent ''x@gmail.com.support@acme.com sales@corp.org'' []))
       = Value (JStr ''sales@corp.org'')"
proof -
  have v: "email (contactInfo (extractFromContent text markup)) = Value (JStr e) \<longleftrightarrow>
      (\<exists>us vs. matchAll RE_EMAIL 0 text = us @ e # vs
         \<and> (\<forall>u \<in> set us. \<not> isContactEmail u) \<and> isContactEmail e)"
    unfolding content_email by (rule firstSlot_filter_Value)
  have m: "email (contactInfo (extractFromContent text markup)) = Missing \<longleftrightarrow>
        (\<forall>m \<in> set (matchAll RE_EMAIL 0 text). \<not> isContactEmail m)"
    unfolding content_email by (rule firstSlot_filter_Missing)
  have s: "\<forall>m \<in> set (matchAll RE_EMAIL 0 text). emailShaped m \<and> (\<exists>a b. text = a @ m @ b)"
    using matchAll_EMAIL by blast
  have c: "isContactEmail e \<longleftrightarrow>
        \<not> (\<exists>a b. e = a @ ''@gmail.'' @ b) \<and> \<not> (\<exists>a b. e = a @ ''@yahoo.'' @ b)
        \<and> \<not> (\<exists>a b. e = a @ ''@hotmail.'' @ b)
        \<and> ((\<exists>a b. e = a @ ''contact'' @ b) \<or> (\<exists>a b. e = a @ ''info'' @ b)
            \<or> (\<exists>a b. e = a @ ''support'' @ b) \<or> (\<exists>a b. e = a @ ''sales'' @ b))"
    unfolding isContactEmail_def str_includes_iff ..
  have x1: "matchAll RE_EMAIL 0 ''x@gmail.com.support@acme.com sales@corp.org''
       = [''x@gmail.com.support'', ''sales@corp.org'']"
    by code_simp
  have x2: "email (contactInfo (extractFromContent ''x@gmail.com.support@acme.com sales@corp.org'' []))
       = Value (JStr ''sales@corp.org'')"
    by code_simp
  show ?thesis using v m s c x1 x2 by blast
qed

theorem email_first_match_with_keyword_anywhere_witness:
  "matchAll RE_EMAIL 0 ''Mail bob@gmail.com or info@acme.com.'' = [''bob@gmail.com'', ''info@acme.com'']
   \<and> \<not> isContactEmail ''bob@gmail.com''
   \<and> isContactEmail ''info@acme.com''
   \<and> email (contactInfo (extractFromContent ''Mail bob@gmail.com or info@acme.com.'' []))
       = Value (JStr ''info@acme.com'')
   \<and> matchAll RE_EMAIL 0 ''Mail bob@gmail.com'' = [''bob@gmail.com'']
   \<and> email (contactInfo (extractFromContent ''Mail bob@gmail.com'' [])) = Missing
   \<and> emailShaped ''info@acme.com''"
proof -
  have ms2: "matchAll RE_EMAIL 0 ''Mail bob@gmail.com'' = [''bob@gmail.com'']"
    by code_simp
  have ms: "matchAll RE_EMAIL 0 ''Mail bob@gmail.com or info@acme.com.''
              = [''bob@gmail.com'', ''info@acme.com'']"
    by code_simp
  have b: "\<not> isContactEmail ''bob@gmail.com''" by code_simp
  have i: "isContactEmail ''info@acme.com''" by code_simp
  have "matchAll RE_EMAIL 0 ''Mail bob@gmail.com or info@acme.com.''
          = [''bob@gmail.com''] @ ''info@acme.com'' # []
        \<and> (\<forall>u \<in> set [''bob@gmail.com'']. \<not> isContactEmail u) \<and> isContactEmail ''info@acme.com''"
    using ms b i by simp
  then have "email (contactInfo (extractFromContent ''Mail bob@gmail.com or info@acme.com.'' []))
       = Value (JStr ''info@acme.com'')"
    using email_first_match_with_keyword_anywhere
            [of "''Mail bob@gmail.com or info@acme.com.''" "[]" "''info@acme.com''"]
    by blast
  moreover have "email (contactInfo (extractFromContent ''Mail bob@gmail.com'' [])) = Missing"
    using email_first_match_with_keyword_anywhere [of "''Mail bob@gmail.com''" "[]" "[]"] ms2 b
    by simp
  moreover have "emailShaped ''info@acme.com''"
    using email_first_match_with_keyword_anywhere
            [of "''Mail bob@gmail.com or info@acme.com.''" "[]" "[]"] ms
    by simp
  ultimately show ?thesis using ms ms2 b i by blast
qed

text \<open>
  Extra X7.  Every profile that \<open>extractData\<close> returns has a name and a description
  that are truthy.  When the name (the description) of the structured data is a string
  or absent, that of the profile is a non-empty string.  When neither the structured
  data nor the meta tags contribute one (the page content never does), they are the
  placeholders \<open>Company Name\<close> and \<open>No description available.\<close>  The scorer gives the
  10 points of a field only when it is truthy and differs from its placeholder: a
  placeholder scores like an absent field.
\<close>

theorem placeholders_set_and_not_scored:
  "(extractData sc = Inr p \<longrightarrow> truthyOpt (companyName p) \<and> truthyOpt (description p))
   \<and> (extractData sc = Inr p \<longrightarrow> extractFromStructuredData (jsonLd sc) = Inr st \<longrightarrow>
        (companyName st = None \<or> (\<exists>s. companyName st = Some (JStr s))
           \<longrightarrow> (\<exists>n. companyName p = Some (JStr n) \<and> n \<noteq> []))
        \<and> (description st = None \<or> (\<exists>s. description st = Some (JStr s))
           \<longrightarrow> (\<exists>t. description p = Some (JStr t) \<and> t \<noteq> []))
        \<and> (companyName st = None \<longrightarrow> companyName (extractFromMetaTags (metaTags sc)) = None
           \<longrightarrow> companyName p = Some (JStr ''Company Name''))
        \<and> (description st = None \<longrightarrow> description (extractFromMetaTags (metaTags sc)) = None
           \<longrightarrow> description p = Some (JStr ''No description available.'')))
   \<and> calculateQualityScore (d\<lparr>companyName := Some (JStr ''Company Name'')\<rparr>)
        = calculateQualityScore (d\<lparr>companyName := None\<rparr>)
   \<and> calculateQualityScore (d\<lparr>description := Some (JStr ''No description available.'')\<rparr>)
        = calculateQualityScore (d\<lparr>description := None\<rparr>)
   \<and> (n \<noteq> [] \<longrightarrow> n \<noteq> ''Company Name'' \<longrightarrow>
        calculateQualityScore (d\<lparr>companyName := Some (JStr n)\<rparr>)
          = calculateQualityScore (d\<lparr>companyName := None\<rparr>) + 10)
   \<and> (t \<noteq> [] \<longrightarrow> t \<noteq> ''No description available.'' \<longrightarrow>
        calculateQualityScore (d\<lparr>description := Some (JStr t)\<rparr>)
          = calculateQualityScore (d\<lparr>description := None\<rparr>) + 10)"
proof -
  have set_truthy: "extractData sc = Inr p \<longrightarrow>
      truthyOpt (companyName p) \<and> truthyOpt (description p)"
  proof
    assume "extractData sc = Inr p"
    then obtain m where "p = cleanExtractedData m" using extractData_is_cleaned by blast
    then show "truthyOpt (companyName p) \<and> truthyOpt (description p)"
      using clean_has_name [of m] clean_has_description [of m] by simp
  qed
  have placeholder: "extractData sc = Inr p \<longrightarrow> extractFromStructuredData (jsonLd sc) = Inr st \<longrightarrow>
        (companyName st = None \<or> (\<exists>s. companyName st = Some (JStr s))
           \<longrightarrow> (\<exists>n. companyName p = Some (JStr n) \<and> n \<noteq> []))
        \<and> (description st = None \<or> (\<exists>s. description st = Some (JStr s))
           \<longrightarrow> (\<exists>t. description p = Some (JStr t) \<and> t \<noteq> []))
        \<and> (companyName st = None \<longrightarrow> companyName (extractFromMetaTags (metaTags sc)) = None
           \<longrightarrow> companyName p = Some (JStr ''Company Name''))
        \<and> (description st = None \<longrightarrow> description (extractFromMetaTags (metaTags sc)) = None
           \<longrightarrow> description p = Some (JStr ''No description available.''))"
  proof (intro impI)
    assume run: "extractData sc = Inr p" and st: "extractFromStructuredData (jsonLd sc) = Inr st"
    let ?m = "mergeExtractedData [st, extractFromMetaTags (metaTags sc),
                        extractFromContent (textContent sc) (html sc)]"
    obtain bt where p: "p = cleanExtractedData (?m\<lparr>businessType := Some bt\<rparr>)"
      using extractData_is_cleaned [OF run] st by auto
    have cn: "companyName p
                = (if \<not> truthyOpt (companyName ?m) then Some (JStr ''Company Name'')
                   else companyName ?m)"
      unfolding p clean_companyName by simp
    have ds: "description p
                = (if \<not> truthyOpt (description ?m) then Some (JStr ''No description available.'')
                   else description ?m)"
      unfolding p clean_description by simp
    have mn: "companyName ?m
                = mergeValue (mergeValue None (companyName st))
                    (companyName (extractFromMetaTags (metaTags sc)))"
      unfolding merge3_companyName by (simp add: content_no_name mergeValue_None)
    have md: "description ?m
                = mergeValue (mergeValue None (description st))
                    (description (extractFromMetaTags (metaTags sc)))"
      unfolding merge3_description by (simp add: content_no_name mergeValue_None)
    have n1: "companyName st = None \<or> (\<exists>s. companyName st = Some (JStr s))
           \<longrightarrow> (\<exists>n. companyName p = Some (JStr n) \<and> n \<noteq> [])"
      unfolding cn mn using meta_name_string [of "metaTags sc"]
      by (auto simp: mergeValue_None mergeValue_JStr)
    have d1: "description st = None \<or> (\<exists>s. description st = Some (JStr s))
           \<longrightarrow> (\<exists>t. description p = Some (JStr t) \<and> t \<noteq> [])"
      unfolding ds md using meta_description_string [of "metaTags sc"]
      by (auto simp: mergeValue_None mergeValue_JStr)
    have n2: "companyName st = None \<longrightarrow> companyName (extractFromMetaTags (metaTags sc)) = None
           \<longrightarrow> companyName p = Some (JStr ''Company Name'')"
      unfolding cn mn by (simp add: mergeValue_None)
    have d2: "description st = None \<longrightarrow> description (extractFromMetaTags (metaTags sc)) = None
           \<longrightarrow> description p = Some (JStr ''No description available.'')"
      unfolding ds md by (simp add: mergeValue_None)
    show "(companyName st = None \<or> (\<exists>s. companyName st = Some (JStr s))
           \<longrightarrow> (\<exists>n. companyName p = Some (JStr n) \<and> n \<noteq> []))
        \<and> (description st = None \<or> (\<exists>s. description st = Some (JStr s))
           \<longrightarrow> (\<exists>t. description p = Some (JStr t) \<and> t \<noteq> []))
        \<and> (companyName st = None \<longrightarrow> companyName (extractFromMetaTags (metaTags sc)) = None
           \<longrightarrow> companyName p = Some (JStr ''Company Name''))
        \<and> (description st = None \<longrightarrow> description (extractFromMetaTags (metaTags sc)) = None
           \<longrightarrow> description p = Some (JStr ''No description available.''))"
      using n1 d1 n2 d2 by blast
  qed
  have s1: "calculateQualityScore (d\<lparr>companyName := Some (JStr ''Company Name'')\<rparr>)
        = calculateQualityScore (d\<lparr>companyName := None\<rparr>)"
    by (simp add: score_name [where d = d and x = "Some (JStr ''Company Name'')"])
  have s2: "calculateQualityScore (d\<lparr>description := Some (JStr ''No description available.'')\<rparr>)
        = calculateQualityScore (d\<lparr>description := None\<rparr>)"
    by (simp add: score_description [where d = d and x = "Some (JStr ''No description available.'')"])
  have s3: "n \<noteq> [] \<longrightarrow> n \<noteq> ''Company Name'' \<longrightarrow>
        calculateQualityScore (d\<lparr>companyName := Some (JStr n)\<rparr>)
          = calculateQualityScore (d\<lparr>companyName := None\<rparr>) + 10"
    by (simp add: score_name [where d = d and x = "Some (JStr n)"])
  have s4: "t \<noteq> [] \<longrightarrow> t \<noteq> ''No description available.'' \<longrightarrow>
        calculateQualityScore (d\<lparr>description := Some (JStr t)\<rparr>)
          = calculateQualityScore (d\<lparr>description := None\<rparr>) + 10"
    by (simp add: score_description [where d = d and x = "Some (JStr t)"])
  show ?thesis using set_truthy placeholder s1 s2 s3 s4 by blast
qed

theorem placeholders_set_and_not_scored_witness:
  "map_sum id companyName (extractData emptyBundle) = Inr (Some (JStr ''Company Name''))
   \<and> map_sum id description (extractData emptyBundle)
       = Inr (Some (JStr ''No description available.''))
   \<and> map_sum id calculateQualityScore (extractData emptyBundle) = Inr 0
   \<and> calculateQualityScore (emptyData\<lparr>companyName := Some (JStr ''Acme'')\<rparr>)
       = calculateQualityScore (emptyData\<lparr>companyName := None\<rparr>) + 10
   \<and> calculateQualityScore (emptyData\<lparr>description := Some (JStr ''We build bridges'')\<rparr>)
       = calculateQualityScore (emptyData\<lparr>description := None\<rparr>) + 10"
proof -
  have st: "extractFromStructuredData (jsonLd emptyBundle) = Inr (emptyData\<lparr>schemaData := Some []\<rparr>)"
    by (simp add: extractFromStructuredData_def emptyBundle_def bindE_def)
  have mt: "companyName (extractFromMetaTags (metaTags emptyBundle)) = None
            \<and> description (extractFromMetaTags (metaTags emptyBundle)) = None"
    by (simp add: extractFromMetaTags_def emptyBundle_def emptyData_def Let_def)
  have sc: "map_sum id calculateQualityScore (extractData emptyBundle) = Inr 0"
    by code_simp
  obtain p where p: "extractData emptyBundle = Inr p"
    using sc by (cases "extractData emptyBundle") auto
  have nm: "companyName p = Some (JStr ''Company Name'')
            \<and> description p = Some (JStr ''No description available.'')"
    using placeholders_set_and_not_scored
            [of emptyBundle p "emptyData\<lparr>schemaData := Some []\<rparr>" emptyData "''Acme''"
               "''We build bridges''"]
          p st mt
    by (simp add: emptyData_def)
  have pts: "calculateQualityScore (emptyData\<lparr>companyName := Some (JStr ''Acme'')\<rparr>)
       = calculateQualityScore (emptyData\<lparr>companyName := None\<rparr>) + 10"
    using placeholders_set_and_not_scored
            [of emptyBundle p "emptyData\<lparr>schemaData := Some []\<rparr>" emptyData "''Acme''"
               "''We build bridges''"]
    by simp
  have dpts: "calculateQualityScore (emptyData\<lparr>description := Some (JStr ''We build bridges'')\<rparr>)
       = calculateQualityScore (emptyData\<lparr>description := None\<rparr>) + 10"
    using placeholders_set_and_not_scored
            [of emptyBundle p "emptyData\<lparr>schemaData := Some []\<rparr>" emptyData "''Acme''"
               "''We build bridges''"]
    by simp
  show ?thesis using p nm sc pts dpts by simp
qed

end
